theory Spec2Isabelle
  imports Complex_Main
begin

section \<open>Python values\<close>

text \<open>
  A Python \<open>str\<close> is a sequence of Unicode code points, so \<open>len\<close> counts code points.
  A string is modelled as the list of its code points; the literals of the source are
  written as HOL strings and injected with \<open>ustr\<close>.
\<close>

type_synonym pystr = "nat list"

definition ustr :: "string \<Rightarrow> pystr" where
  "ustr s = map of_char s"

text \<open>
  The values that can occur in a tool's \<open>arguments\<close> mapping and in a result mapping.
  A \<open>dict\<close> is an association list in insertion order, read with \<open>map_of\<close>.
  A float is modelled by the rational it denotes.
\<close>

datatype pyval =
    PNone
  | PBool bool
  | PInt int
  | PFloat rat
  | PStr pystr
  | PList "pyval list"
  | PDict "(pystr \<times> pyval) list"

type_synonym pydict = "(pystr \<times> pyval) list"

text \<open>Truth value testing (\<open>if not x\<close>, \<open>x or y\<close>).\<close>

fun truthy :: "pyval \<Rightarrow> bool" where
  "truthy PNone = False"
| "truthy (PBool b) = b"
| "truthy (PInt i) = (i \<noteq> 0)"
| "truthy (PFloat r) = (r \<noteq> 0)"
| "truthy (PStr s) = (s \<noteq> [])"
| "truthy (PList xs) = (xs \<noteq> [])"
| "truthy (PDict kvs) = (kvs \<noteq> [])"

text \<open>\<open>d.get(k)\<close> and \<open>d.get(k, default)\<close>.\<close>

definition py_get :: "pydict \<Rightarrow> pystr \<Rightarrow> pyval" where
  "py_get d k = (case map_of d k of None \<Rightarrow> PNone | Some v \<Rightarrow> v)"

definition py_get_default :: "pydict \<Rightarrow> pystr \<Rightarrow> pyval \<Rightarrow> pyval" where
  "py_get_default d k dflt = (case map_of d k of None \<Rightarrow> dflt | Some v \<Rightarrow> v)"

text \<open>
  \<open>isinstance(x, int)\<close>: \<open>bool\<close> is a subclass of \<open>int\<close> in Python, so both
  integers and booleans are instances. \<open>int_value\<close> is the number such an instance
  compares as (\<open>True\<close> is 1, \<open>False\<close> is 0).
\<close>

fun isinstance_int :: "pyval \<Rightarrow> bool" where
  "isinstance_int (PInt i) = True"
| "isinstance_int (PBool b) = True"
| "isinstance_int v = False"

fun int_value :: "pyval \<Rightarrow> int" where
  "int_value (PInt i) = i"
| "int_value (PBool b) = (if b then 1 else 0)"
| "int_value v = 0"

fun isinstance_bool :: "pyval \<Rightarrow> bool" where
  "isinstance_bool (PBool b) = True"
| "isinstance_bool v = False"

fun isinstance_dict :: "pyval \<Rightarrow> bool" where
  "isinstance_dict (PDict kvs) = True"
| "isinstance_dict v = False"

fun type_name :: "pyval \<Rightarrow> pystr" where
  "type_name PNone = ustr ''NoneType''"
| "type_name (PBool b) = ustr ''bool''"
| "type_name (PInt i) = ustr ''int''"
| "type_name (PFloat r) = ustr ''float''"
| "type_name (PStr s) = ustr ''str''"
| "type_name (PList xs) = ustr ''list''"
| "type_name (PDict kvs) = ustr ''dict''"

definition apostrophe :: pystr where
  "apostrophe = [39]"

text \<open>Exceptions, each with the text \<open>str(e)\<close> gives.\<close>

datatype exn =
    ValueError pystr
  | RuntimeError pystr
  | ConnectionError pystr
  | TypeError pystr
  | OverflowError pystr
  | AttributeError pystr

fun exn_str :: "exn \<Rightarrow> pystr" where
  "exn_str (ValueError m) = m"
| "exn_str (RuntimeError m) = m"
| "exn_str (ConnectionError m) = m"
| "exn_str (TypeError m) = m"
| "exn_str (OverflowError m) = m"
| "exn_str (AttributeError m) = m"

text \<open>\<open>len(x)\<close>: defined on strings, lists and dicts, a \<open>TypeError\<close> elsewhere.\<close>

fun py_len :: "pyval \<Rightarrow> exn + nat" where
  "py_len (PStr s) = Inr (length s)"
| "py_len (PList xs) = Inr (length xs)"
| "py_len (PDict kvs) = Inr (length kvs)"
| "py_len v =
     Inl (TypeError (ustr ''object of type '' @ apostrophe @ type_name v @ apostrophe
                     @ ustr '' has no len()''))"

subsection \<open>\<open>str.split()\<close>\<close>

text \<open>
  Without arguments \<open>split\<close> cuts at runs of whitespace and returns no empty word.
  \<open>py_isspace\<close> lists the code points CPython treats as whitespace.
\<close>

definition py_isspace :: "nat \<Rightarrow> bool" where
  "py_isspace c \<longleftrightarrow>
     (9 \<le> c \<and> c \<le> 13) \<or> (28 \<le> c \<and> c \<le> 32) \<or> c = 133 \<or> c = 160 \<or> c = 5760
     \<or> (8192 \<le> c \<and> c \<le> 8202) \<or> c = 8232 \<or> c = 8233 \<or> c = 8239 \<or> c = 8287
     \<or> c = 12288"

text \<open>\<open>split_from cur s\<close>: \<open>cur\<close> is the word being read, reversed.\<close>

fun split_from :: "pystr \<Rightarrow> pystr \<Rightarrow> pystr list" where
  "split_from cur [] = (if cur = [] then [] else [rev cur])"
| "split_from cur (c # cs) =
     (if py_isspace c
      then (if cur = [] then split_from [] cs else rev cur # split_from [] cs)
      else split_from (c # cur) cs)"

definition split :: "pystr \<Rightarrow> pystr list" where
  "split s = split_from [] s"

text \<open>
  \<open>x.split()\<close> on an arbitrary value: only a string has the method; elsewhere the
  attribute lookup raises \<open>AttributeError\<close>, whose text is returned on the left.
\<close>

fun py_split :: "pyval \<Rightarrow> pystr + pystr list" where
  "py_split (PStr s) = Inr (split s)"
| "py_split v =
     Inl (apostrophe @ type_name v @ apostrophe @ ustr '' object has no attribute ''
          @ apostrophe @ ustr ''split'' @ apostrophe)"

text \<open>
  The whitespace-delimited word count, stated directly: the number of positions where a
  word starts, that is a non-whitespace character at the beginning or after whitespace.
  \<open>word_count_from b s\<close>: \<open>b\<close> tells whether the previous character was part of a word.
\<close>

fun word_count_from :: "bool \<Rightarrow> pystr \<Rightarrow> nat" where
  "word_count_from inword [] = 0"
| "word_count_from inword (c # cs) =
     (if py_isspace c then word_count_from False cs
      else (if inword then 0 else 1) + word_count_from True cs)"

definition word_count :: "pystr \<Rightarrow> nat" where
  "word_count s = word_count_from False s"

text \<open>\<open>round(x, 3)\<close>: to the nearest multiple of 1/1000, ties to the even one.\<close>

definition round3 :: "rat \<Rightarrow> rat" where
  "round3 x =
     (let y = x * 1000; f = \<lfloor>y\<rfloor>; d = y - of_int f
      in if d < 1 / 2 then of_int f / 1000
         else if 1 / 2 < d then of_int (f + 1) / 1000
         else if even f then of_int f / 1000 else of_int (f + 1) / 1000)"

text \<open>\<open>str(n)\<close> for an integer, in decimal.\<close>

function str_nat :: "nat \<Rightarrow> pystr" where
  "str_nat n = (if n < 10 then [48 + n] else str_nat (n div 10) @ [48 + n mod 10])"
  by pat_completeness auto
termination
  by (relation "measure id") auto

definition str_int :: "int \<Rightarrow> pystr" where
  "str_int i = (if i < 0 then 45 # str_nat (nat (- i)) else str_nat (nat i))"

section \<open>The backend session and its environment\<close>

text \<open>
  \<open>MemuClientWrapper\<close> holds the session handle \<open>_client\<close>, the optional
  \<open>_logger\<close>, \<open>_retry_count\<close>, \<open>_max_retries\<close> and \<open>_base_delay\<close>. The
  external memU library, the clock and the event loop are outside the repository: their
  answers are given by the streams \<open>connect_outcomes\<close> (what each construction of
  \<open>MemuClient\<close> does: \<open>None\<close> when it returns, the exception text when it raises),
  \<open>memorize_outcomes\<close> (what each call of the library's \<open>memorize_conversation\<close>
  does: the exception text, or the \<open>id\<close> attribute of the object it returns, \<open>PNone\<close>
  when it has none) and \<open>clock\<close> (the readings of \<open>time.time()\<close>). Each stream is
  consumed from its head. The \<open>timeline\<close> records, in the order they happen, every
  reading of the clock and everything the code does to the outside; \<open>effects\<close> is the
  timeline without the clock readings. What the code logs is recorded in \<open>logs\<close>, and
  every invocation of an adapter method in \<open>calls\<close> (the record a mock adapter keeps
  in the tests).

  The wrapper's own logger, when \<open>set_logger\<close> has given it one, is taken to be a
  \<open>MemuLogger\<close> as that method declares, whose calls do not raise. The text of a plain
  log message is not kept, only its level.
\<close>

datatype memu_client = MemuClient

text \<open>
  A float that may be infinite: the argument of \<open>asyncio.sleep\<close>. A pause that is
  computed is the product of a float and a power of two, which is exact as long as it is
  within the range of a float, and an infinity beyond \<open>float_max\<close>.
\<close>

datatype pyfloat = Finite rat | PosInf | NegInf

definition float_max :: rat where
  "float_max = (2 ^ 53 - 1) * 2 ^ 971"

definition float_times_pow2 :: "rat \<Rightarrow> nat \<Rightarrow> pyfloat" where
  "float_times_pow2 x k =
     (let p = x * 2 ^ k
      in if float_max < p then PosInf else if p < - float_max then NegInf else Finite p)"

datatype effect =
    Connect
  | ExtMemorize pyval pyval pyval pyval pyval
  | Sleep pyfloat

datatype moment = Read rat | Act effect

datatype level = Info | Warning | Error

datatype log_record =
    LogMsg level
  | LogToolCall pystr pydict bool
  | LogApiCall pystr rat bool

datatype adapter_call =
    CallMemorize pyval pyval pyval pyval pyval
  | CallRetrieve pyval pyval pyval
  | CallSearch pyval pyval pyval pyval
  | CallUpdate pyval pyval pyval
  | CallDelete pyval pyval
  | CallStats pyval pyval

record state =
  client :: "memu_client option"
  has_logger :: bool
  retry_count :: int
  max_retries :: int
  base_delay :: rat
  connect_outcomes :: "nat \<Rightarrow> pystr option"
  memorize_outcomes :: "nat \<Rightarrow> pystr + pyval"
  clock :: "nat \<Rightarrow> rat"
  timeline :: "moment list"
  logs :: "log_record list"
  calls :: "adapter_call list"

fun acts :: "moment list \<Rightarrow> effect list" where
  "acts [] = []"
| "acts (Read t # ms) = acts ms"
| "acts (Act e # ms) = e # acts ms"

definition effects :: "state \<Rightarrow> effect list" where
  "effects s = acts (timeline s)"

text \<open>\<open>MemuClientWrapper.__init__\<close>, in a given environment.\<close>

definition init_wrapper ::
  "int \<Rightarrow> rat \<Rightarrow> (nat \<Rightarrow> pystr option) \<Rightarrow> (nat \<Rightarrow> pystr + pyval) \<Rightarrow> (nat \<Rightarrow> rat) \<Rightarrow> state"
where
  "init_wrapper mr bd conn memo clk =
     \<lparr>client = None, has_logger = False, retry_count = 0, max_retries = mr, base_delay = bd,
      connect_outcomes = conn, memorize_outcomes = memo, clock = clk,
      timeline = [], logs = [], calls = []\<rparr>"

definition set_logger :: "state \<Rightarrow> state" where
  "set_logger s = s\<lparr>has_logger := True\<rparr>"

definition time_time :: "state \<Rightarrow> rat \<times> state" where
  "time_time s =
     (clock s 0,
      s\<lparr>clock := (\<lambda>k. clock s (Suc k)), timeline := timeline s @ [Read (clock s 0)]\<rparr>)"

definition sleep :: "pyfloat \<Rightarrow> state \<Rightarrow> state" where
  "sleep d s = s\<lparr>timeline := timeline s @ [Act (Sleep d)]\<rparr>"

definition log :: "log_record \<Rightarrow> state \<Rightarrow> state" where
  "log r s = s\<lparr>logs := logs s @ [r]\<rparr>"

text \<open>A call on the wrapper's own logger, guarded by \<open>if self._logger\<close>.\<close>

definition wlog :: "log_record \<Rightarrow> state \<Rightarrow> state" where
  "wlog r s = (if has_logger s then log r s else s)"

definition called :: "adapter_call \<Rightarrow> state \<Rightarrow> state" where
  "called c s = s\<lparr>calls := calls s @ [c]\<rparr>"

text \<open>The construction \<open>MemuClient(base_url=..., api_key=...)\<close>.\<close>

definition new_MemuClient :: "state \<Rightarrow> (pystr + memu_client) \<times> state" where
  "new_MemuClient s =
     (let s1 = s\<lparr>timeline := timeline s @ [Act Connect],
                 connect_outcomes := (\<lambda>k. connect_outcomes s (Suc k))\<rparr>
      in case connect_outcomes s 0 of
           None \<Rightarrow> (Inr MemuClient, s1)
         | Some msg \<Rightarrow> (Inl msg, s1))"

text \<open>
  \<open>_test_connection\<close>: the body between the two clock readings is a placeholder, so
  nothing in it raises and its \<open>except\<close> branch is never entered.
\<close>

definition test_connection :: "state \<Rightarrow> state" where
  "test_connection s =
     (let (start_time, s1) = time_time s;
          (now, s2) = time_time s1;
          response_time = now - start_time
      in wlog (LogApiCall (ustr ''test_connection'') response_time True) s2)"

text \<open>
  \<open>initialize\<close>: the loop \<open>for attempt in range(self._max_retries + 1)\<close>, from
  \<open>attempt\<close> on. Leaving the loop by exhausting the range returns \<open>None\<close>.

  The pause is \<open>self._base_delay * (2 ** attempt)\<close>, a float times an integer: the
  integer is converted to a float first, which raises \<open>OverflowError\<close> from
  \<open>2 ** 1024\<close> on. The statement stands in the \<open>except\<close> branch, so that error
  leaves \<open>initialize\<close>.
\<close>

function initialize_loop :: "nat \<Rightarrow> state \<Rightarrow> (exn + unit) \<times> state" where
  "initialize_loop attempt s =
     (if int attempt < max_retries s + 1 then
        (case new_MemuClient s of
           (Inr c, s1) \<Rightarrow>
             (let s2 = test_connection (s1\<lparr>client := Some c\<rparr>);
                  s3 = wlog (LogMsg Info) s2
              in (Inr (), s3\<lparr>retry_count := 0\<rparr>))
         | (Inl e, s1) \<Rightarrow>
             (let s2 = wlog (LogMsg Warning) s1
              in if int attempt < max_retries s2 then
                   (if 1024 \<le> attempt
                    then (Inl (OverflowError (ustr ''int too large to convert to float'')), s2)
                    else
                      (let delay = float_times_pow2 (base_delay s2) attempt;
                           s3 = wlog (LogMsg Info) s2;
                           s4 = sleep delay s3
                       in initialize_loop (Suc attempt) s4))
                 else
                   (Inl (ConnectionError
                          (ustr ''Failed to initialize memU client after ''
                           @ str_int (max_retries s2 + 1) @ ustr '' attempts: '' @ e)), s2)))
      else (Inr (), s))"
  by pat_completeness auto
termination
  by (relation "measure (\<lambda>(attempt, s). nat (max_retries s + 1 - int attempt))")
     (auto simp: new_MemuClient_def wlog_def log_def sleep_def Let_def
           split: option.splits if_splits)

declare initialize_loop.simps [simp del]

definition initialize :: "state \<Rightarrow> (exn + unit) \<times> state" where
  "initialize s = initialize_loop 0 s"

definition close :: "state \<Rightarrow> state" where
  "close s = (if client s \<noteq> None then wlog (LogMsg Info) (s\<lparr>client := None\<rparr>) else s)"

section \<open>The adapter's methods\<close>

type_synonym outcome = "(exn + pyval) \<times> state"

definition not_initialized :: exn where
  "not_initialized = RuntimeError (ustr ''Client not initialized'')"

text \<open>The library call \<open>self._client.memorize_conversation(...)\<close>.\<close>

definition ext_memorize_conversation ::
  "pyval \<Rightarrow> pyval \<Rightarrow> pyval \<Rightarrow> pyval \<Rightarrow> pyval \<Rightarrow> state \<Rightarrow> (pystr + pyval) \<times> state"
where
  "ext_memorize_conversation conversation user_id user_name agent_id agent_name s =
     (memorize_outcomes s 0,
      s\<lparr>timeline := timeline s
                     @ [Act (ExtMemorize conversation user_id user_name agent_id agent_name)],
        memorize_outcomes := (\<lambda>k. memorize_outcomes s (Suc k))\<rparr>)"

text \<open>The \<open>except Exception as e\<close> branch of \<open>memorize_conversation\<close>.\<close>

definition memorize_except :: "rat \<Rightarrow> pystr \<Rightarrow> state \<Rightarrow> outcome" where
  "memorize_except start_time e s =
     (let (now, s1) = time_time s;
          response_time = now - start_time;
          s2 = wlog (LogApiCall (ustr ''memorize_conversation'') response_time False) s1
      in (Inl (RuntimeError (ustr ''Failed to memorize conversation: '' @ e)), s2))"

definition memorize_conversation ::
  "pyval \<Rightarrow> pyval \<Rightarrow> pyval \<Rightarrow> pyval \<Rightarrow> pyval \<Rightarrow> state \<Rightarrow> outcome"
where
  "memorize_conversation conversation user_id user_name agent_id agent_name s0 =
     (let s = called (CallMemorize conversation user_id user_name agent_id agent_name) s0
      in if client s = None then (Inl not_initialized, s)
         else
           (let (start_time, s1) = time_time s
            in case ext_memorize_conversation conversation user_id user_name agent_id
                      agent_name s1 of
                 (Inl e, s2) \<Rightarrow> memorize_except start_time e s2
               | (Inr result_id, s2) \<Rightarrow>
                   (let (now, s3) = time_time s2;
                        response_time = now - start_time;
                        s4 = wlog (LogApiCall (ustr ''memorize_conversation'') response_time True) s3
                    in case py_split conversation of
                         Inl e \<Rightarrow> memorize_except start_time e s4
                       | Inr words \<Rightarrow>
                           (Inr (PDict
                              [(ustr ''success'', PBool True),
                               (ustr ''message'', PStr (ustr ''Conversation memorized successfully'')),
                               (ustr ''memory_id'', result_id),
                               (ustr ''tokens_processed'', PInt (int (length words))),
                               (ustr ''processing_time'', PFloat (round3 response_time))]),
                            s4))))"

text \<open>
  The other methods are placeholders: a simulated delay between two clock readings.
  Nothing in their \<open>try\<close> body raises, so their \<open>except\<close> branches are never entered.
  \<open>simulated d m s\<close> is that common body; it returns the response time.
\<close>

definition simulated :: "rat \<Rightarrow> pystr \<Rightarrow> state \<Rightarrow> rat \<times> state" where
  "simulated d method s =
     (let (start_time, s1) = time_time s;
          s2 = sleep (Finite d) s1;
          (now, s3) = time_time s2;
          response_time = now - start_time
      in (response_time, wlog (LogApiCall method response_time True) s3))"

definition retrieve_memory :: "pyval \<Rightarrow> pyval \<Rightarrow> pyval \<Rightarrow> state \<Rightarrow> outcome" where
  "retrieve_memory query user_id limit s0 =
     (let s = called (CallRetrieve query user_id limit) s0
      in if client s = None then (Inl not_initialized, s)
         else
           (let (response_time, s1) = simulated (1 / 10) (ustr ''retrieve_memory'') s
            in (Inr (PDict
                 [(ustr ''success'', PBool True),
                  (ustr ''memories'', PList [PDict
                     [(ustr ''id'', PStr (ustr ''mem_001'')),
                      (ustr ''content'', PStr (ustr ''Example memory content related to query'')),
                      (ustr ''relevance_score'', PFloat (85 / 100)),
                      (ustr ''timestamp'', PStr (ustr ''2024-01-01T12:00:00Z'')),
                      (ustr ''user_id'', user_id),
                      (ustr ''metadata'', PDict
                         [(ustr ''conversation_id'', PStr (ustr ''conv_001'')),
                          (ustr ''agent_id'', PStr (ustr ''agent_001''))])]]),
                  (ustr ''total_found'', PInt 1),
                  (ustr ''query'', query),
                  (ustr ''processing_time'', PFloat (round3 response_time))]),
                s1)))"

definition search_memory :: "pyval \<Rightarrow> pyval \<Rightarrow> pyval \<Rightarrow> pyval \<Rightarrow> state \<Rightarrow> outcome" where
  "search_memory search_query user_id filters limit s0 =
     (let s = called (CallSearch search_query user_id filters limit) s0
      in if client s = None then (Inl not_initialized, s)
         else
           (let (response_time, s1) = simulated (1 / 10) (ustr ''search_memory'') s
            in (Inr (PDict
                 [(ustr ''success'', PBool True),
                  (ustr ''results'', PList [PDict
                     [(ustr ''id'', PStr (ustr ''mem_002'')),
                      (ustr ''content'', PStr (ustr ''Memory content matching search query'')),
                      (ustr ''similarity_score'', PFloat (92 / 100)),
                      (ustr ''timestamp'', PStr (ustr ''2024-01-01T12:00:00Z'')),
                      (ustr ''user_id'', user_id)]]),
                  (ustr ''total_results'', PInt 1),
                  (ustr ''search_query'', search_query),
                  (ustr ''filters_applied'', (if truthy filters then filters else PDict [])),
                  (ustr ''processing_time'', PFloat (round3 response_time))]),
                s1)))"

definition update_memory :: "pyval \<Rightarrow> pyval \<Rightarrow> pyval \<Rightarrow> state \<Rightarrow> outcome" where
  "update_memory memory_id new_content user_id s0 =
     (let s = called (CallUpdate memory_id new_content user_id) s0
      in if client s = None then (Inl not_initialized, s)
         else
           (let (response_time, s1) = simulated (5 / 100) (ustr ''update_memory'') s
            in (Inr (PDict
                 [(ustr ''success'', PBool True),
                  (ustr ''message'', PStr (ustr ''Memory updated successfully'')),
                  (ustr ''memory_id'', memory_id),
                  (ustr ''updated_content'', new_content),
                  (ustr ''processing_time'', PFloat (round3 response_time))]),
                s1)))"

definition delete_memory :: "pyval \<Rightarrow> pyval \<Rightarrow> state \<Rightarrow> outcome" where
  "delete_memory memory_id user_id s0 =
     (let s = called (CallDelete memory_id user_id) s0
      in if client s = None then (Inl not_initialized, s)
         else
           (let (response_time, s1) = simulated (5 / 100) (ustr ''delete_memory'') s
            in (Inr (PDict
                 [(ustr ''success'', PBool True),
                  (ustr ''message'', PStr (ustr ''Memory deleted successfully'')),
                  (ustr ''memory_id'', memory_id),
                  (ustr ''processing_time'', PFloat (round3 response_time))]),
                s1)))"

definition stats_details :: pyval where
  "stats_details = PDict
     [(ustr ''memories_by_agent'', PDict
         [(ustr ''agent_001'', PInt 25), (ustr ''agent_002'', PInt 17)]),
      (ustr ''memory_types'', PDict
         [(ustr ''conversation'', PInt 35), (ustr ''facts'', PInt 7)]),
      (ustr ''date_range'', PDict
         [(ustr ''earliest'', PStr (ustr ''2023-12-01T00:00:00Z'')),
          (ustr ''latest'', PStr (ustr ''2024-01-01T12:00:00Z''))])]"

definition get_memory_stats :: "pyval \<Rightarrow> pyval \<Rightarrow> state \<Rightarrow> outcome" where
  "get_memory_stats user_id include_details s0 =
     (let s = called (CallStats user_id include_details) s0
      in if client s = None then (Inl not_initialized, s)
         else
           (let (response_time, s1) = simulated (1 / 10) (ustr ''get_memory_stats'') s;
                stats = [(ustr ''success'', PBool True),
                         (ustr ''user_id'', user_id),
                         (ustr ''total_memories'', PInt 42),
                         (ustr ''total_conversations'', PInt 15),
                         (ustr ''memory_size_mb'', PFloat (12 / 10)),
                         (ustr ''last_updated'', PStr (ustr ''2024-01-01T12:00:00Z'')),
                         (ustr ''processing_time'', PFloat (round3 response_time))]
            in (Inr (PDict (if truthy include_details
                             then stats @ [(ustr ''details'', stats_details)]
                             else stats)),
                s1)))"

section \<open>The tool handlers (\<open>MemoryTools\<close>)\<close>

text \<open>
  \<open>MemoryTools\<close> is constructed with a logger, declared as a \<open>MemuLogger\<close>. The
  tests construct it with one (a mock of that class); \<open>MemuMCPServer\<close> in
  \<open>server.py\<close> constructs it with the logger \<open>setup_logger\<close> returns, a structlog
  \<open>BoundLogger\<close>, which has \<open>info\<close>, \<open>warning\<close> and \<open>error\<close> and no
  \<open>log_tool_call\<close>: looking that attribute up raises \<open>AttributeError\<close>. The handlers
  are therefore modelled for either kind of logger.
\<close>

datatype logger = MemuLogger | BoundLogger

definition no_log_tool_call :: exn where
  "no_log_tool_call =
     AttributeError (apostrophe @ ustr ''BoundLogger'' @ apostrophe
       @ ustr '' object has no attribute '' @ apostrophe @ ustr ''log_tool_call'' @ apostrophe)"

definition log_tool_call ::
  "logger \<Rightarrow> pystr \<Rightarrow> pydict \<Rightarrow> bool \<Rightarrow> state \<Rightarrow> (exn + unit) \<times> state"
where
  "log_tool_call lg tool arguments success s =
     (case lg of
        MemuLogger \<Rightarrow> (Inr (), log (LogToolCall tool arguments success) s)
      | BoundLogger \<Rightarrow> (Inl no_log_tool_call, s))"

text \<open>
  Every handler wraps its body in \<open>try\<close>; the \<open>except Exception\<close> branch logs the
  error, logs the tool call with \<open>success=False\<close> and raises the exception again. When
  the logging itself raises, that exception leaves the handler instead.
\<close>

definition tool_except :: "logger \<Rightarrow> pystr \<Rightarrow> pydict \<Rightarrow> exn \<Rightarrow> state \<Rightarrow> outcome" where
  "tool_except lg tool arguments e s =
     (case log_tool_call lg tool arguments False (log (LogMsg Error) s) of
        (Inl e', s1) \<Rightarrow> (Inl e', s1)
      | (Inr u, s1) \<Rightarrow> (Inl e, s1))"

text \<open>The end of a handler's body: the adapter's answer, and the closing log line.\<close>

definition tool_finish :: "logger \<Rightarrow> pystr \<Rightarrow> pydict \<Rightarrow> outcome \<Rightarrow> outcome" where
  "tool_finish lg tool arguments r =
     (case r of
        (Inl e, s) \<Rightarrow> tool_except lg tool arguments e s
      | (Inr result, s) \<Rightarrow> (Inr result, log (LogMsg Info) s))"

text \<open>
  The body of a handler from \<open>self.logger.log_tool_call(name, arguments)\<close> on: the call
  is logged, then the adapter is called on the state \<open>call\<close> is given.
\<close>

definition tool_call ::
  "logger \<Rightarrow> pystr \<Rightarrow> pydict \<Rightarrow> (state \<Rightarrow> outcome) \<Rightarrow> state \<Rightarrow> outcome"
where
  "tool_call lg tool arguments call s =
     (case log_tool_call lg tool arguments True s of
        (Inl e, s1) \<Rightarrow> tool_except lg tool arguments e s1
      | (Inr u, s1) \<Rightarrow> tool_finish lg tool arguments (call s1))"

definition memory_tools_memorize_conversation :: "logger \<Rightarrow> pydict \<Rightarrow> state \<Rightarrow> outcome" where
  "memory_tools_memorize_conversation lg arguments s =
     (let tool = ustr ''memorize_conversation'';
          conversation = py_get arguments (ustr ''conversation'')
      in if \<not> truthy conversation
         then tool_except lg tool arguments (ValueError (ustr ''conversation is required'')) s
         else
           (let user_id = py_get_default arguments (ustr ''user_id'') (PStr (ustr ''default_user''));
                user_name = py_get_default arguments (ustr ''user_name'') (PStr (ustr ''User''));
                agent_id = py_get_default arguments (ustr ''agent_id'') (PStr (ustr ''default_agent''));
                agent_name = py_get_default arguments (ustr ''agent_name'') (PStr (ustr ''Assistant''))
            in case py_len conversation of
                 Inl e \<Rightarrow> tool_except lg tool arguments e s
               | Inr n \<Rightarrow>
                   if n > 100000
                   then tool_except lg tool arguments
                          (ValueError (ustr ''Conversation too long (max 100,000 characters)'')) s
                   else tool_call lg tool arguments
                          (memorize_conversation conversation user_id user_name agent_id
                             agent_name) s))"

definition limit_message :: pystr where
  "limit_message = ustr ''limit must be an integer between 1 and 50''"

text \<open>The test \<open>not isinstance(limit, int) or limit < 1 or limit > 50\<close>.\<close>

definition limit_rejected :: "pyval \<Rightarrow> bool" where
  "limit_rejected limit \<longleftrightarrow>
     \<not> isinstance_int limit \<or> int_value limit < 1 \<or> int_value limit > 50"

definition memory_tools_retrieve_memory :: "logger \<Rightarrow> pydict \<Rightarrow> state \<Rightarrow> outcome" where
  "memory_tools_retrieve_memory lg arguments s =
     (let tool = ustr ''retrieve_memory'';
          query = py_get arguments (ustr ''query'')
      in if \<not> truthy query
         then tool_except lg tool arguments (ValueError (ustr ''query is required'')) s
         else
           (let user_id = py_get_default arguments (ustr ''user_id'') (PStr (ustr ''default_user''));
                limit = py_get_default arguments (ustr ''limit'') (PInt 10)
            in if limit_rejected limit
               then tool_except lg tool arguments (ValueError limit_message) s
               else tool_call lg tool arguments (retrieve_memory query user_id limit) s))"

definition memory_tools_search_memory :: "logger \<Rightarrow> pydict \<Rightarrow> state \<Rightarrow> outcome" where
  "memory_tools_search_memory lg arguments s =
     (let tool = ustr ''search_memory'';
          search_query = py_get arguments (ustr ''search_query'')
      in if \<not> truthy search_query
         then tool_except lg tool arguments (ValueError (ustr ''search_query is required'')) s
         else
           (let user_id = py_get_default arguments (ustr ''user_id'') (PStr (ustr ''default_user''));
                filters = py_get_default arguments (ustr ''filters'') (PDict []);
                limit = py_get_default arguments (ustr ''limit'') (PInt 10)
            in if limit_rejected limit
               then tool_except lg tool arguments (ValueError limit_message) s
               else if truthy filters \<and> \<not> isinstance_dict filters
               then tool_except lg tool arguments
                      (ValueError (ustr ''filters must be a dictionary'')) s
               else tool_call lg tool arguments
                      (search_memory search_query user_id filters limit) s))"

definition action_message :: pystr where
  "action_message = ustr ''action must be 'update' or 'delete'' @ apostrophe"

text \<open>
  In \<open>manage_memory\<close> the call is logged before the action is looked at, and the
  requirement of \<open>new_content\<close> is checked after that. The second branch is
  \<open>elif action == "delete"\<close>; it is reached only past the membership test, where
  \<open>action\<close> is one of the two strings.
\<close>

definition memory_tools_manage_memory :: "logger \<Rightarrow> pydict \<Rightarrow> state \<Rightarrow> outcome" where
  "memory_tools_manage_memory lg arguments s =
     (let tool = ustr ''manage_memory'';
          action = py_get arguments (ustr ''action'')
      in if action \<notin> set [PStr (ustr ''update''), PStr (ustr ''delete'')]
         then tool_except lg tool arguments (ValueError action_message) s
         else
           (let memory_id = py_get arguments (ustr ''memory_id'')
            in if \<not> truthy memory_id
               then tool_except lg tool arguments (ValueError (ustr ''memory_id is required'')) s
               else
                 (let user_id = py_get_default arguments (ustr ''user_id'')
                                  (PStr (ustr ''default_user''))
                  in case log_tool_call lg tool arguments True s of
                       (Inl e, s1) \<Rightarrow> tool_except lg tool arguments e s1
                     | (Inr u, s1) \<Rightarrow>
                         if action = PStr (ustr ''update'') then
                           (let new_content = py_get arguments (ustr ''new_content'')
                            in if \<not> truthy new_content
                               then tool_except lg tool arguments
                                      (ValueError
                                         (ustr ''new_content is required for update action'')) s1
                               else tool_finish lg tool arguments
                                      (update_memory memory_id new_content user_id s1))
                         else tool_finish lg tool arguments
                                (delete_memory memory_id user_id s1))))"

definition memory_tools_get_memory_stats :: "logger \<Rightarrow> pydict \<Rightarrow> state \<Rightarrow> outcome" where
  "memory_tools_get_memory_stats lg arguments s =
     (let tool = ustr ''get_memory_stats'';
          user_id = py_get_default arguments (ustr ''user_id'') (PStr (ustr ''default_user''));
          include_details = py_get_default arguments (ustr ''include_details'') (PBool False)
      in if \<not> isinstance_bool include_details
         then tool_except lg tool arguments
                (ValueError (ustr ''include_details must be a boolean'')) s
         else tool_call lg tool arguments (get_memory_stats user_id include_details) s)"

text \<open>The handlers of a \<open>MemoryTools\<close> constructed with a \<open>MemuLogger\<close>.\<close>

definition tools_memorize_conversation :: "pydict \<Rightarrow> state \<Rightarrow> outcome" where
  "tools_memorize_conversation = memory_tools_memorize_conversation MemuLogger"

definition tools_retrieve_memory :: "pydict \<Rightarrow> state \<Rightarrow> outcome" where
  "tools_retrieve_memory = memory_tools_retrieve_memory MemuLogger"

definition tools_search_memory :: "pydict \<Rightarrow> state \<Rightarrow> outcome" where
  "tools_search_memory = memory_tools_search_memory MemuLogger"

definition tools_manage_memory :: "pydict \<Rightarrow> state \<Rightarrow> outcome" where
  "tools_manage_memory = memory_tools_manage_memory MemuLogger"

definition tools_get_memory_stats :: "pydict \<Rightarrow> state \<Rightarrow> outcome" where
  "tools_get_memory_stats = memory_tools_get_memory_stats MemuLogger"

section \<open>The dispatcher (\<open>call_tool\<close>)\<close>

text \<open>
  The result envelope. On success its text is \<open>str(result)\<close>; the rendering of a
  mapping as text is not modelled, the result is kept as it is.
\<close>

datatype text_content = ResultText pyval | Text pystr

record call_tool_result =
  content :: "text_content list"
  isError :: bool

text \<open>
  The logger of the server: \<open>MemuMCPServer.__init__\<close> keeps what \<open>setup_logger\<close>
  returns and hands the same object to \<open>MemoryTools\<close>.
\<close>

definition server_logger :: logger where
  "server_logger = BoundLogger"

text \<open>The \<open>try\<close> body of \<open>call_tool\<close>: the chain of comparisons on the name.\<close>

definition dispatch :: "pystr \<Rightarrow> pydict \<Rightarrow> state \<Rightarrow> outcome" where
  "dispatch name arguments s0 =
     (let s = log (LogMsg Info) s0
      in if name = ustr ''memorize_conversation''
         then memory_tools_memorize_conversation server_logger arguments s
         else if name = ustr ''retrieve_memory''
         then memory_tools_retrieve_memory server_logger arguments s
         else if name = ustr ''search_memory''
         then memory_tools_search_memory server_logger arguments s
         else if name = ustr ''manage_memory''
         then memory_tools_manage_memory server_logger arguments s
         else if name = ustr ''get_memory_stats''
         then memory_tools_get_memory_stats server_logger arguments s
         else (Inl (ValueError (ustr ''Unknown tool: '' @ name)), s))"

definition call_tool :: "pystr \<Rightarrow> pydict \<Rightarrow> state \<Rightarrow> call_tool_result \<times> state" where
  "call_tool name arguments s =
     (case dispatch name arguments s of
        (Inr result, s1) \<Rightarrow> (\<lparr>content = [ResultText result], isError = False\<rparr>, s1)
      | (Inl (ValueError m), s1) \<Rightarrow>
          (\<lparr>content = [Text (ustr ''Error: '' @ m)], isError = True\<rparr>, log (LogMsg Error) s1)
      | (Inl e, s1) \<Rightarrow>
          (\<lparr>content = [Text (ustr ''Internal error: '' @ exn_str e)], isError = True\<rparr>,
           log (LogMsg Error) s1))"

text \<open>The operations registered in \<open>list_tools\<close>, by name.\<close>

definition tool_names :: "pystr list" where
  "tool_names = [ustr ''memorize_conversation'', ustr ''retrieve_memory'', ustr ''search_memory'',
                 ustr ''manage_memory'', ustr ''get_memory_stats'']"

text \<open>
  The parameters each input schema of \<open>list_tools\<close> lists under \<open>required\<close>
  (\<open>get_memory_stats\<close> has no such entry).
\<close>

definition required :: "pystr \<Rightarrow> pystr list" where
  "required name =
     (if name = ustr ''memorize_conversation'' then [ustr ''conversation'']
      else if name = ustr ''retrieve_memory'' then [ustr ''query'']
      else if name = ustr ''search_memory'' then [ustr ''search_query'']
      else if name = ustr ''manage_memory'' then [ustr ''action'', ustr ''memory_id'']
      else [])"

section \<open>Notions used in the statements\<close>

text \<open>A validation failure is a \<open>ValueError\<close> raised by a handler.\<close>

fun validation_failure :: "exn + pyval \<Rightarrow> bool" where
  "validation_failure (Inl (ValueError m)) = True"
| "validation_failure r = False"

text \<open>
  A parameter that is missing from the arguments, or present with the empty string.
\<close>

definition empty_or_absent :: "pydict \<Rightarrow> pystr \<Rightarrow> bool" where
  "empty_or_absent d k \<longleftrightarrow> map_of d k = None \<or> map_of d k = Some (PStr [])"

text \<open>An integer between 1 and 50.\<close>

fun limit_in_range :: "pyval \<Rightarrow> bool" where
  "limit_in_range (PInt i) = (1 \<le> i \<and> i \<le> 50)"
| "limit_in_range v = False"

text \<open>
  What \<open>k\<close> failed connection attempts in a row do, the first being attempt \<open>i\<close>:
  each attempt is followed by a pause of \<open>base_delay * 2 ^ attempt\<close> seconds.
\<close>

fun failed_attempts :: "rat \<Rightarrow> nat \<Rightarrow> nat \<Rightarrow> effect list" where
  "failed_attempts b i 0 = []"
| "failed_attempts b i (Suc k) =
     Connect # Sleep (float_times_pow2 b i) # failed_attempts b (Suc i) k"

subsection \<open>Example environments\<close>

definition always_up :: "nat \<Rightarrow> pystr option" where
  "always_up k = None"

definition always_down :: "nat \<Rightarrow> pystr option" where
  "always_down k = Some (ustr ''connection refused'')"

definition memorize_ok :: "nat \<Rightarrow> pystr + pyval" where
  "memorize_ok k = Inr (PStr (ustr ''mem_001''))"

definition ticking :: "nat \<Rightarrow> rat" where
  "ticking k = of_nat k / 4"

definition fresh :: state where
  "fresh = init_wrapper 3 5 always_up memorize_ok ticking"

definition ready :: state where
  "ready = set_logger (fresh\<lparr>client := Some MemuClient\<rparr>)"

definition unreachable :: state where
  "unreachable = init_wrapper 1 5 always_down memorize_ok ticking"

definition bogus_action_call :: pydict where
  "bogus_action_call =
     [(ustr ''action'', PStr (ustr ''bogus'')), (ustr ''memory_id'', PStr (ustr ''mem_001''))]"

definition update_without_content :: pydict where
  "update_without_content =
     [(ustr ''action'', PStr (ustr ''update'')), (ustr ''memory_id'', PStr (ustr ''mem_001''))]"

definition delete_call :: pydict where
  "delete_call =
     [(ustr ''action'', PStr (ustr ''delete'')), (ustr ''memory_id'', PStr (ustr ''mem_001''))]"

definition empty_content_update :: pydict where
  "empty_content_update =
     [(ustr ''action'', PStr (ustr ''update'')), (ustr ''memory_id'', PStr (ustr ''mem_001'')),
      (ustr ''new_content'', PStr [])]"

definition long_conversation :: pystr where
  "long_conversation = replicate 100001 120"

definition longest_conversation :: pystr where
  "longest_conversation = replicate 100000 120"

definition greeting :: pystr where
  "greeting = ustr ''User: Hello! Assistant: Hi there!''"





section \<open>Properties\<close>

subsection \<open>Strings\<close>

lemma ustr_eq_iff: "ustr a = ustr b \<longleftrightarrow> a = b"
  unfolding ustr_def by (simp add: inj_of_char)

lemma ustr_eq_Nil: "ustr s = [] \<longleftrightarrow> s = []"
  by (simp add: ustr_def)

lemma ustr_append: "ustr a @ ustr b = ustr (a @ b)"
  by (simp add: ustr_def)

lemma length_split_from:
  "length (split_from cur s) = word_count_from (cur \<noteq> []) s + (if cur \<noteq> [] then 1 else 0)"
  by (induction s arbitrary: cur) auto

lemma length_split: "length (split s) = word_count s"
  by (simp add: split_def word_count_def length_split_from)

subsection \<open>Handlers and adapter methods\<close>

lemma acts_append [simp]: "acts (xs @ ys) = acts xs @ acts ys"
  by (induction xs rule: acts.induct) simp_all

lemma acts_timeline [simp]: "acts (timeline s) = effects s"
  by (simp add: effects_def)

lemma effects_update [simp]:
  "effects (s\<lparr>client := c\<rparr>) = effects s"
  "effects (s\<lparr>has_logger := h\<rparr>) = effects s"
  "effects (s\<lparr>retry_count := r\<rparr>) = effects s"
  "effects (s\<lparr>connect_outcomes := co\<rparr>) = effects s"
  "effects (s\<lparr>memorize_outcomes := mo\<rparr>) = effects s"
  "effects (s\<lparr>clock := k\<rparr>) = effects s"
  "effects (s\<lparr>logs := l\<rparr>) = effects s"
  "effects (s\<lparr>calls := cs\<rparr>) = effects s"
  "effects (s\<lparr>timeline := t\<rparr>) = acts t"
  unfolding effects_def by simp_all

lemma effects_record [simp]:
  "effects \<lparr>client = c, has_logger = h, retry_count = r, max_retries = m, base_delay = b,
            connect_outcomes = co, memorize_outcomes = mo, clock = k, timeline = t,
            logs = l, calls = cs\<rparr> = acts t"
  unfolding effects_def by simp

lemma effects_init_wrapper: "effects (init_wrapper mr bd conn memo clk) = []"
  unfolding effects_def init_wrapper_def by simp

text \<open>With a \<open>MemuLogger\<close> the logging calls of a handler never raise.\<close>

lemma tool_except_MemuLogger:
  "tool_except MemuLogger t a e s
     = (Inl e, log (LogToolCall t a False) (log (LogMsg Error) s))"
  by (simp add: tool_except_def log_tool_call_def)

lemma tool_call_MemuLogger:
  "tool_call MemuLogger t a call s
     = tool_finish MemuLogger t a (call (log (LogToolCall t a True) s))"
  by (simp add: tool_call_def log_tool_call_def)

lemma tools_memorize_conversation_unfold:
  "tools_memorize_conversation arguments s =
     (let tool = ustr ''memorize_conversation'';
          conversation = py_get arguments (ustr ''conversation'')
      in if \<not> truthy conversation
         then tool_except MemuLogger tool arguments
                (ValueError (ustr ''conversation is required'')) s
         else
           (let user_id = py_get_default arguments (ustr ''user_id'') (PStr (ustr ''default_user''));
                user_name = py_get_default arguments (ustr ''user_name'') (PStr (ustr ''User''));
                agent_id = py_get_default arguments (ustr ''agent_id'') (PStr (ustr ''default_agent''));
                agent_name = py_get_default arguments (ustr ''agent_name'') (PStr (ustr ''Assistant''))
            in case py_len conversation of
                 Inl e \<Rightarrow> tool_except MemuLogger tool arguments e s
               | Inr n \<Rightarrow>
                   if n > 100000
                   then tool_except MemuLogger tool arguments
                          (ValueError (ustr ''Conversation too long (max 100,000 characters)'')) s
                   else tool_finish MemuLogger tool arguments
                          (memorize_conversation conversation user_id user_name agent_id agent_name
                             (log (LogToolCall tool arguments True) s))))"
  by (simp add: tools_memorize_conversation_def memory_tools_memorize_conversation_def
        tool_call_MemuLogger Let_def split: sum.splits)

lemma tools_retrieve_memory_unfold:
  "tools_retrieve_memory arguments s =
     (let tool = ustr ''retrieve_memory'';
          query = py_get arguments (ustr ''query'')
      in if \<not> truthy query
         then tool_except MemuLogger tool arguments (ValueError (ustr ''query is required'')) s
         else
           (let user_id = py_get_default arguments (ustr ''user_id'') (PStr (ustr ''default_user''));
                limit = py_get_default arguments (ustr ''limit'') (PInt 10)
            in if limit_rejected limit
               then tool_except MemuLogger tool arguments (ValueError limit_message) s
               else tool_finish MemuLogger tool arguments
                      (retrieve_memory query user_id limit
                         (log (LogToolCall tool arguments True) s))))"
  by (simp add: tools_retrieve_memory_def memory_tools_retrieve_memory_def
        tool_call_MemuLogger Let_def)

lemma tools_search_memory_unfold:
  "tools_search_memory arguments s =
     (let tool = ustr ''search_memory'';
          search_query = py_get arguments (ustr ''search_query'')
      in if \<not> truthy search_query
         then tool_except MemuLogger tool arguments
                (ValueError (ustr ''search_query is required'')) s
         else
           (let user_id = py_get_default arguments (ustr ''user_id'') (PStr (ustr ''default_user''));
                filters = py_get_default arguments (ustr ''filters'') (PDict []);
                limit = py_get_default arguments (ustr ''limit'') (PInt 10)
            in if limit_rejected limit
               then tool_except MemuLogger tool arguments (ValueError limit_message) s
               else if truthy filters \<and> \<not> isinstance_dict filters
               then tool_except MemuLogger tool arguments
                      (ValueError (ustr ''filters must be a dictionary'')) s
               else tool_finish MemuLogger tool arguments
                      (search_memory search_query user_id filters limit
                         (log (LogToolCall tool arguments True) s))))"
  by (simp add: tools_search_memory_def memory_tools_search_memory_def
        tool_call_MemuLogger Let_def)

lemma tools_manage_memory_unfold:
  "tools_manage_memory arguments s =
     (let tool = ustr ''manage_memory'';
          action = py_get arguments (ustr ''action'')
      in if action \<notin> set [PStr (ustr ''update''), PStr (ustr ''delete'')]
         then tool_except MemuLogger tool arguments (ValueError action_message) s
         else
           (let memory_id = py_get arguments (ustr ''memory_id'')
            in if \<not> truthy memory_id
               then tool_except MemuLogger tool arguments
                      (ValueError (ustr ''memory_id is required'')) s
               else
                 (let user_id = py_get_default arguments (ustr ''user_id'')
                                  (PStr (ustr ''default_user''));
                      s1 = log (LogToolCall tool arguments True) s
                  in if action = PStr (ustr ''update'') then
                       (let new_content = py_get arguments (ustr ''new_content'')
                        in if \<not> truthy new_content
                           then tool_except MemuLogger tool arguments
                                  (ValueError (ustr ''new_content is required for update action'')) s1
                           else tool_finish MemuLogger tool arguments
                                  (update_memory memory_id new_content user_id s1))
                     else tool_finish MemuLogger tool arguments
                            (delete_memory memory_id user_id s1))))"
  by (simp add: tools_manage_memory_def memory_tools_manage_memory_def log_tool_call_def Let_def)

lemma tools_get_memory_stats_unfold:
  "tools_get_memory_stats arguments s =
     (let tool = ustr ''get_memory_stats'';
          user_id = py_get_default arguments (ustr ''user_id'') (PStr (ustr ''default_user''));
          include_details = py_get_default arguments (ustr ''include_details'') (PBool False)
      in if \<not> isinstance_bool include_details
         then tool_except MemuLogger tool arguments
                (ValueError (ustr ''include_details must be a boolean'')) s
         else tool_finish MemuLogger tool arguments
                (get_memory_stats user_id include_details
                   (log (LogToolCall tool arguments True) s)))"
  by (simp add: tools_get_memory_stats_def memory_tools_get_memory_stats_def
        tool_call_MemuLogger Let_def)

lemma calls_tool_except: "calls (snd (tool_except MemuLogger t a e s)) = calls s"
  and effects_tool_except: "effects (snd (tool_except MemuLogger t a e s)) = effects s"
  and fst_tool_except: "fst (tool_except MemuLogger t a e s) = Inl e"
  by (simp_all add: tool_except_MemuLogger log_def)

lemma fst_tool_finish: "fst (tool_finish MemuLogger t a r) = fst r"
  and calls_tool_finish: "calls (snd (tool_finish MemuLogger t a r)) = calls (snd r)"
  and effects_tool_finish: "effects (snd (tool_finish MemuLogger t a r)) = effects (snd r)"
  by (simp_all add: tool_finish_def tool_except_MemuLogger log_def split: prod.splits sum.splits)

lemmas rejected = fst_tool_except calls_tool_except effects_tool_except

text \<open>
  With the server's logger every handler ends in the \<open>AttributeError\<close> of
  \<open>log_tool_call\<close>, on every path and before the adapter is reached: the call is logged
  either ahead of the adapter call or in the \<open>except\<close> branch.
\<close>

lemma tool_except_BoundLogger:
  "tool_except BoundLogger t a e s = (Inl no_log_tool_call, log (LogMsg Error) s)"
  by (simp add: tool_except_def log_tool_call_def)

lemma tool_call_BoundLogger:
  "tool_call BoundLogger t a call s
     = (Inl no_log_tool_call, log (LogMsg Error) s)"
  by (simp add: tool_call_def tool_except_def log_tool_call_def)

lemma handlers_BoundLogger:
  "memory_tools_memorize_conversation BoundLogger a s
     = (Inl no_log_tool_call, log (LogMsg Error) s)"
  "memory_tools_retrieve_memory BoundLogger a s
     = (Inl no_log_tool_call, log (LogMsg Error) s)"
  "memory_tools_search_memory BoundLogger a s
     = (Inl no_log_tool_call, log (LogMsg Error) s)"
  "memory_tools_manage_memory BoundLogger a s
     = (Inl no_log_tool_call, log (LogMsg Error) s)"
  "memory_tools_get_memory_stats BoundLogger a s
     = (Inl no_log_tool_call, log (LogMsg Error) s)"
  by (simp_all add: memory_tools_memorize_conversation_def memory_tools_retrieve_memory_def
        memory_tools_search_memory_def memory_tools_manage_memory_def
        memory_tools_get_memory_stats_def Let_def tool_except_BoundLogger tool_call_BoundLogger
        log_tool_call_def split: sum.splits)

lemma dispatch_registered:
  assumes "name \<in> set tool_names"
  shows "dispatch name arguments s
           = (Inl no_log_tool_call, log (LogMsg Error) (log (LogMsg Info) s))"
  using assms
  by (auto simp: tool_names_def dispatch_def ustr_eq_iff server_logger_def handlers_BoundLogger)

lemma simulated_eq:
  "simulated d m s =
     (clock s 1 - clock s 0,
      wlog (LogApiCall m (clock s 1 - clock s 0) True)
        (s\<lparr>clock := (\<lambda>k. clock s (Suc (Suc k))),
           timeline := timeline s @ [Read (clock s 0), Act (Sleep (Finite d)), Read (clock s 1)]\<rparr>))"
  by (simp add: simulated_def time_time_def sleep_def Let_def)

lemma calls_simulated: "calls (snd (simulated d m s)) = calls s"
  and client_simulated: "client (snd (simulated d m s)) = client s"
  by (simp_all add: simulated_eq wlog_def log_def)

lemma calls_retrieve_memory:
  "calls (snd (retrieve_memory q u l s)) = calls s @ [CallRetrieve q u l]"
  by (simp add: retrieve_memory_def called_def Let_def simulated_eq wlog_def log_def)

lemma calls_search_memory:
  "calls (snd (search_memory q u f l s)) = calls s @ [CallSearch q u f l]"
  by (simp add: search_memory_def called_def Let_def simulated_eq wlog_def log_def)

lemma calls_update_memory:
  "calls (snd (update_memory m c u s)) = calls s @ [CallUpdate m c u]"
  by (simp add: update_memory_def called_def Let_def simulated_eq wlog_def log_def)

lemma calls_delete_memory:
  "calls (snd (delete_memory m u s)) = calls s @ [CallDelete m u]"
  by (simp add: delete_memory_def called_def Let_def simulated_eq wlog_def log_def)

lemma calls_get_memory_stats:
  "calls (snd (get_memory_stats u d s)) = calls s @ [CallStats u d]"
  by (simp add: get_memory_stats_def called_def Let_def simulated_eq wlog_def log_def)

lemma memorize_except_eq:
  "memorize_except t0 e s =
     (Inl (RuntimeError (ustr ''Failed to memorize conversation: '' @ e)),
      wlog (LogApiCall (ustr ''memorize_conversation'') (clock s 0 - t0) False)
        (s\<lparr>clock := (\<lambda>k. clock s (Suc k)), timeline := timeline s @ [Read (clock s 0)]\<rparr>))"
  by (simp add: memorize_except_def time_time_def Let_def)

lemma calls_memorize_conversation:
  "calls (snd (memorize_conversation c u un a an s)) = calls s @ [CallMemorize c u un a an]"
  by (simp add: memorize_conversation_def called_def Let_def time_time_def
        ext_memorize_conversation_def memorize_except_eq wlog_def log_def
      split: sum.splits prod.splits)

lemma empty_or_absent_get: "empty_or_absent d k \<Longrightarrow> \<not> truthy (py_get d k)"
  by (auto simp: empty_or_absent_def py_get_def)

lemma delete_memory_ok:
  "client s \<noteq> None \<Longrightarrow>
   fst (delete_memory m u s) =
     Inr (PDict [(ustr ''success'', PBool True),
                 (ustr ''message'', PStr (ustr ''Memory deleted successfully'')),
                 (ustr ''memory_id'', m),
                 (ustr ''processing_time'', PFloat (round3 (clock s 1 - clock s 0)))])"
  by (simp add: delete_memory_def called_def simulated_eq Let_def wlog_def log_def)

lemma limit_rejected_iff:
  "limit \<noteq> PBool True \<Longrightarrow> limit_rejected limit \<longleftrightarrow> \<not> limit_in_range limit"
  by (cases limit) (auto simp: limit_rejected_def)

lemma adapter_no_validation_failure:
  "\<not> validation_failure (fst (retrieve_memory q u l s))"
  "\<not> validation_failure (fst (search_memory q u f l s))"
  "\<not> validation_failure (fst (memorize_conversation c u un a an s))"
  by (simp_all add: retrieve_memory_def search_memory_def memorize_conversation_def Let_def
        not_initialized_def memorize_except_eq ext_memorize_conversation_def
      split: prod.splits sum.splits)

lemma effects_memorize_conversation:
  "client s \<noteq> None \<Longrightarrow>
   effects (snd (memorize_conversation c u un a an s)) = effects s @ [ExtMemorize c u un a an]"
  by (simp add: memorize_conversation_def called_def Let_def time_time_def
        ext_memorize_conversation_def memorize_except_eq wlog_def log_def
      split: sum.splits prod.splits)

lemma memorize_conversation_ok:
  assumes "client s \<noteq> None" and "memorize_outcomes s 0 = Inr result_id"
  shows "fst (memorize_conversation (PStr c) u un a an s) =
     Inr (PDict [(ustr ''success'', PBool True),
                 (ustr ''message'', PStr (ustr ''Conversation memorized successfully'')),
                 (ustr ''memory_id'', result_id),
                 (ustr ''tokens_processed'', PInt (int (word_count c))),
                 (ustr ''processing_time'', PFloat (round3 (clock s 1 - clock s 0)))])"
  using assms
  by (simp add: memorize_conversation_def called_def Let_def time_time_def
        ext_memorize_conversation_def length_split)

lemma tools_memorize_conversation_ok:
  assumes "client s \<noteq> None" and "memorize_outcomes s 0 = Inr result_id"
    and "py_get arguments (ustr ''conversation'') = PStr c" and "c \<noteq> []"
    and "length c \<le> 100000"
  shows "fst (tools_memorize_conversation arguments s) =
     Inr (PDict [(ustr ''success'', PBool True),
                 (ustr ''message'', PStr (ustr ''Conversation memorized successfully'')),
                 (ustr ''memory_id'', result_id),
                 (ustr ''tokens_processed'', PInt (int (word_count c))),
                 (ustr ''processing_time'', PFloat (round3 (clock s 1 - clock s 0)))])"
proof -
  let ?s = "log (LogToolCall (ustr ''memorize_conversation'') arguments True) s"
  have "client ?s \<noteq> None" "memorize_outcomes ?s 0 = Inr result_id" "clock ?s = clock s"
    using assms(1,2) by (simp_all add: log_def)
  from memorize_conversation_ok [OF this(1,2)] this(3) assms(3,4,5)
  show ?thesis
    by (simp add: tools_memorize_conversation_unfold Let_def fst_tool_finish)
qed

lemma dispatch_unknown:
  assumes "name \<notin> set tool_names"
  shows "dispatch name arguments s
           = (Inl (ValueError (ustr ''Unknown tool: '' @ name)), log (LogMsg Info) s)"
  using assms by (simp add: dispatch_def tool_names_def)

lemma call_tool_error:
  assumes "fst (dispatch name arguments s) = Inl e"
  shows "fst (call_tool name arguments s) =
           \<lparr>content = [Text ((if validation_failure (Inl e) then ustr ''Error: ''
                               else ustr ''Internal error: '') @ exn_str e)],
            isError = True\<rparr>"
  using assms
  by (cases "dispatch name arguments s"; cases e) (simp_all add: call_tool_def)

text \<open>
  A handler with a \<open>MemuLogger\<close> logs its call on every path, with \<open>success\<close> true
  or false.
\<close>

lemma logs_adapter:
  "x \<in> set (logs s) \<Longrightarrow> x \<in> set (logs (snd (memorize_conversation c u un a an s)))"
  "x \<in> set (logs s) \<Longrightarrow> x \<in> set (logs (snd (retrieve_memory q u l s)))"
  "x \<in> set (logs s) \<Longrightarrow> x \<in> set (logs (snd (search_memory q u f l s)))"
  "x \<in> set (logs s) \<Longrightarrow> x \<in> set (logs (snd (update_memory m n u s)))"
  "x \<in> set (logs s) \<Longrightarrow> x \<in> set (logs (snd (delete_memory m u s)))"
  "x \<in> set (logs s) \<Longrightarrow> x \<in> set (logs (snd (get_memory_stats u d s)))"
  by (simp_all add: memorize_conversation_def retrieve_memory_def search_memory_def
        update_memory_def delete_memory_def get_memory_stats_def called_def Let_def
        simulated_eq memorize_except_eq time_time_def ext_memorize_conversation_def
        wlog_def log_def split: prod.splits sum.splits)

lemma logs_tool_except:
  "\<exists>ok. LogToolCall t a ok \<in> set (logs (snd (tool_except MemuLogger t a e s)))"
  by (rule exI [of _ False]) (simp add: tool_except_MemuLogger log_def)

lemma logs_tool_finish:
  "LogToolCall t a True \<in> set (logs (snd r)) \<Longrightarrow>
   \<exists>ok. LogToolCall t a ok \<in> set (logs (snd (tool_finish MemuLogger t a r)))"
  by (cases r; cases "fst r") (auto simp: tool_finish_def tool_except_MemuLogger log_def)

lemma logged: "r \<in> set (logs (log r s))"
  by (simp add: log_def)

lemma handlers_log_their_call:
  "\<exists>ok. LogToolCall (ustr ''memorize_conversation'') a ok
           \<in> set (logs (snd (tools_memorize_conversation a s)))"
  "\<exists>ok. LogToolCall (ustr ''retrieve_memory'') a ok
           \<in> set (logs (snd (tools_retrieve_memory a s)))"
  "\<exists>ok. LogToolCall (ustr ''search_memory'') a ok
           \<in> set (logs (snd (tools_search_memory a s)))"
  "\<exists>ok. LogToolCall (ustr ''manage_memory'') a ok
           \<in> set (logs (snd (tools_manage_memory a s)))"
  "\<exists>ok. LogToolCall (ustr ''get_memory_stats'') a ok
           \<in> set (logs (snd (tools_get_memory_stats a s)))"
  by (auto simp: tools_memorize_conversation_unfold tools_retrieve_memory_unfold
        tools_search_memory_unfold tools_manage_memory_unfold tools_get_memory_stats_unfold Let_def
      intro!: logs_tool_finish logs_adapter logged logs_tool_except
      split: sum.splits)

subsection \<open>The connection loop\<close>

lemma new_MemuClient_fail:
  "connect_outcomes s 0 = Some e \<Longrightarrow>
   new_MemuClient s =
     (Inl e, s\<lparr>timeline := timeline s @ [Act Connect],
                connect_outcomes := (\<lambda>k. connect_outcomes s (Suc k))\<rparr>)"
  by (simp add: new_MemuClient_def)

lemma new_MemuClient_ok:
  "connect_outcomes s 0 = None \<Longrightarrow>
   new_MemuClient s =
     (Inr MemuClient, s\<lparr>timeline := timeline s @ [Act Connect],
                connect_outcomes := (\<lambda>k. connect_outcomes s (Suc k))\<rparr>)"
  by (simp add: new_MemuClient_def)

lemma test_connection_fields:
  "effects (test_connection s) = effects s" "client (test_connection s) = client s"
  "retry_count (test_connection s) = retry_count s"
  by (simp_all add: test_connection_def time_time_def wlog_def log_def Let_def)

lemma wlog_fields:
  "effects (wlog r s) = effects s" "client (wlog r s) = client s"
  "max_retries (wlog r s) = max_retries s" "base_delay (wlog r s) = base_delay s"
  "connect_outcomes (wlog r s) = connect_outcomes s" "retry_count (wlog r s) = retry_count s"
  by (simp_all add: wlog_def log_def)

lemma sleep_fields:
  "effects (sleep d s) = effects s @ [Sleep d]" "client (sleep d s) = client s"
  "max_retries (sleep d s) = max_retries s" "base_delay (sleep d s) = base_delay s"
  "connect_outcomes (sleep d s) = connect_outcomes s"
  by (simp_all add: sleep_def)

lemma initialize_loop_success:
  assumes "int attempt \<le> max_retries s" and "connect_outcomes s 0 = None"
  shows "fst (initialize_loop attempt s) = Inr ()"
    and "retry_count (snd (initialize_loop attempt s)) = 0"
    and "client (snd (initialize_loop attempt s)) = Some MemuClient"
    and "effects (snd (initialize_loop attempt s)) = effects s @ [Connect]"
proof -
  have "initialize_loop attempt s = 
     (Inr (), (wlog (LogMsg Info) (test_connection
        (s\<lparr>timeline := timeline s @ [Act Connect],
                connect_outcomes := (\<lambda>k. connect_outcomes s (Suc k)), client := Some MemuClient\<rparr>)))\<lparr>retry_count := 0\<rparr>)"
    using assms(1)
    apply (subst initialize_loop.simps)
    apply (simp only: new_MemuClient_ok [OF assms(2)])
    apply (simp add: Let_def)
    done
  then show "fst (initialize_loop attempt s) = Inr ()"
    and "retry_count (snd (initialize_loop attempt s)) = 0"
    and "client (snd (initialize_loop attempt s)) = Some MemuClient"
    and "effects (snd (initialize_loop attempt s)) = effects s @ [Connect]"
    by (simp_all add: wlog_fields test_connection_fields)
qed

lemma initialize_loop_retry:
  assumes "int attempt < max_retries s" and "connect_outcomes s 0 = Some e"
    and "attempt < 1024"
  shows "initialize_loop attempt s =
     initialize_loop (Suc attempt)
       (sleep (float_times_pow2 (base_delay s) attempt)
          (wlog (LogMsg Info) (wlog (LogMsg Warning)
             (s\<lparr>timeline := timeline s @ [Act Connect],
                connect_outcomes := (\<lambda>k. connect_outcomes s (Suc k))\<rparr>))))"
  using assms
  by (subst initialize_loop.simps) (simp add: new_MemuClient_fail Let_def wlog_fields)

lemma initialize_loop_give_up:
  assumes "int attempt = max_retries s" and "connect_outcomes s 0 = Some e"
  shows "initialize_loop attempt s =
     (Inl (ConnectionError (ustr ''Failed to initialize memU client after ''
                            @ str_int (max_retries s + 1) @ ustr '' attempts: '' @ e)),
      wlog (LogMsg Warning)
        (s\<lparr>timeline := timeline s @ [Act Connect],
           connect_outcomes := (\<lambda>k. connect_outcomes s (Suc k))\<rparr>))"
  using assms
  by (subst initialize_loop.simps) (simp add: new_MemuClient_fail Let_def wlog_fields)

lemma initialize_loop_overflow:
  assumes "int attempt < max_retries s" and "connect_outcomes s 0 = Some e"
    and "1024 \<le> attempt"
  shows "initialize_loop attempt s =
     (Inl (OverflowError (ustr ''int too large to convert to float'')),
      wlog (LogMsg Warning)
        (s\<lparr>timeline := timeline s @ [Act Connect],
           connect_outcomes := (\<lambda>k. connect_outcomes s (Suc k))\<rparr>))"
  using assms
  by (subst initialize_loop.simps) (simp add: new_MemuClient_fail Let_def wlog_fields)

lemma initialize_loop_skip:
  "\<not> int attempt < max_retries s + 1 \<Longrightarrow> initialize_loop attempt s = (Inr (), s)"
  by (subst initialize_loop.simps) simp


lemma initialize_loop_exhausted:
  assumes "int (attempt + k) = max_retries s"
    and "\<forall>i\<le>k. connect_outcomes s i \<noteq> None"
    and "attempt + k \<le> 1024"
  shows "fst (initialize_loop attempt s)
           = Inl (ConnectionError (ustr ''Failed to initialize memU client after ''
                    @ str_int (max_retries s + 1) @ ustr '' attempts: ''
                    @ the (connect_outcomes s k)))
       \<and> client (snd (initialize_loop attempt s)) = client s
       \<and> effects (snd (initialize_loop attempt s))
           = effects s @ failed_attempts (base_delay s) attempt k @ [Connect]"
  using assms
proof (induction k arbitrary: attempt s)
  case 0
  then obtain e where e: "connect_outcomes s 0 = Some e"
    by auto
  with 0 show ?case
    by (simp add: initialize_loop_give_up [where e = e] wlog_fields)
next
  case (Suc k)
  from Suc.prems(2) obtain e where e: "connect_outcomes s 0 = Some e"
    by auto
  let ?s = "sleep (float_times_pow2 (base_delay s) attempt)
          (wlog (LogMsg Info) (wlog (LogMsg Warning)
             (s\<lparr>timeline := timeline s @ [Act Connect],
                connect_outcomes := (\<lambda>k. connect_outcomes s (Suc k))\<rparr>)))"
  have step: "initialize_loop attempt s = initialize_loop (Suc attempt) ?s"
    using Suc.prems e by (intro initialize_loop_retry) simp_all
  have f: "max_retries ?s = max_retries s" "base_delay ?s = base_delay s"
    "connect_outcomes ?s = (\<lambda>k. connect_outcomes s (Suc k))"
    "effects ?s = effects s @ [Connect, Sleep (float_times_pow2 (base_delay s) attempt)]"
    "client ?s = client s"
    by (simp_all add: sleep_fields wlog_fields)
  have "fst (initialize_loop (Suc attempt) ?s)
           = Inl (ConnectionError (ustr ''Failed to initialize memU client after ''
                    @ str_int (max_retries ?s + 1) @ ustr '' attempts: ''
                    @ the (connect_outcomes ?s k)))
       \<and> client (snd (initialize_loop (Suc attempt) ?s)) = client ?s
       \<and> effects (snd (initialize_loop (Suc attempt) ?s))
           = effects ?s @ failed_attempts (base_delay ?s) (Suc attempt) k @ [Connect]"
    using Suc.prems by (intro Suc.IH) (simp_all add: f)
  then show ?case
    by (simp add: step f)
qed



lemma initialize_loop_failed_client:
  assumes "fst (initialize_loop attempt s) = Inl e"
  shows "client (snd (initialize_loop attempt s)) = client s"
  using assms
proof (induction n \<equiv> "nat (max_retries s - int attempt)" arbitrary: attempt s)
  case 0
  show ?case
  proof (cases "int attempt < max_retries s + 1")
    case False
    with "0.prems" show ?thesis
      by (simp add: initialize_loop_skip)
  next
    case True
    with "0.hyps" have eq: "int attempt = max_retries s"
      by simp
    show ?thesis
    proof (cases "connect_outcomes s 0")
      case None
      with eq "0.prems" show ?thesis
        by (simp add: initialize_loop_success)
    next
      case (Some e')
      with eq show ?thesis
        by (simp add: initialize_loop_give_up wlog_fields)
    qed
  qed
next
  case (Suc n)
  then have lt: "int attempt < max_retries s"
    by simp
  show ?case
  proof (cases "connect_outcomes s 0")
    case None
    with lt Suc.prems show ?thesis
      by (simp add: initialize_loop_success)
  next
    case (Some e')
    show ?thesis
    proof (cases "attempt < 1024")
      case False
      with lt Some show ?thesis
        by (simp add: initialize_loop_overflow wlog_fields)
    next
      case True
      let ?s = "sleep (float_times_pow2 (base_delay s) attempt)
            (wlog (LogMsg Info) (wlog (LogMsg Warning)
               (s\<lparr>timeline := timeline s @ [Act Connect],
                  connect_outcomes := (\<lambda>k. connect_outcomes s (Suc k))\<rparr>)))"
      have step: "initialize_loop attempt s = initialize_loop (Suc attempt) ?s"
        using lt Some True by (rule initialize_loop_retry)
      have f: "max_retries ?s = max_retries s" "client ?s = client s"
        by (simp_all add: sleep_fields wlog_fields)
      from Suc.hyps(2) have "n = nat (max_retries ?s - int (Suc attempt))"
        by (simp add: f)
      from Suc.hyps(1) [OF this] Suc.prems show ?thesis
        by (simp add: step f)
    qed
  qed
qed

lemma initialize_unreachable:
  "fst (initialize unreachable)
     = Inl (ConnectionError
         (ustr ''Failed to initialize memU client after 2 attempts: connection refused''))"
proof -
  have u: "max_retries unreachable = 1" "connect_outcomes unreachable = always_down"
    by (simp_all add: unreachable_def init_wrapper_def)
  have "int (0 + 1) = max_retries unreachable" "\<forall>i\<le>1. connect_outcomes unreachable i \<noteq> None"
    "(0::nat) + 1 \<le> 1024"
    by (simp_all add: u always_down_def)
  from initialize_loop_exhausted [OF this] show ?thesis
    by (simp add: initialize_def u always_down_def ustr_def str_int_def)
qed

subsection \<open>Missing required parameters\<close>

text \<open>
  C1 (as amended). For each handler of an operation with a required parameter, a call in
  which every required parameter is absent from the arguments raises \<open>ValueError\<close>,
  invokes no adapter method and does nothing to the backend. For
  \<open>memorize_conversation\<close>, \<open>retrieve_memory\<close> and \<open>search_memory\<close> the text is
  \<open><name> is required\<close> for the required parameter; for \<open>manage_memory\<close> the
  absence of \<open>action\<close> is reported by the enumeration check, with the text
  \<open>action must be 'update' or 'delete'\<close>. The required parameters are those of the
  input schemas.
\<close>

theorem required_parameters_absent:
  "(map_of arguments (ustr ''conversation'') = None \<longrightarrow>
      fst (tools_memorize_conversation arguments s)
        = Inl (ValueError (ustr ''conversation is required''))
      \<and> calls (snd (tools_memorize_conversation arguments s)) = calls s
      \<and> effects (snd (tools_memorize_conversation arguments s)) = effects s)
   \<and> (map_of arguments (ustr ''query'') = None \<longrightarrow>
      fst (tools_retrieve_memory arguments s)
        = Inl (ValueError (ustr ''query is required''))
      \<and> calls (snd (tools_retrieve_memory arguments s)) = calls s
      \<and> effects (snd (tools_retrieve_memory arguments s)) = effects s)
   \<and> (map_of arguments (ustr ''search_query'') = None \<longrightarrow>
      fst (tools_search_memory arguments s)
        = Inl (ValueError (ustr ''search_query is required''))
      \<and> calls (snd (tools_search_memory arguments s)) = calls s
      \<and> effects (snd (tools_search_memory arguments s)) = effects s)
   \<and> (map_of arguments (ustr ''action'') = None \<and> map_of arguments (ustr ''memory_id'') = None
        \<longrightarrow>
      fst (tools_manage_memory arguments s) = Inl (ValueError action_message)
      \<and> calls (snd (tools_manage_memory arguments s)) = calls s
      \<and> effects (snd (tools_manage_memory arguments s)) = effects s)
   \<and> required (ustr ''memorize_conversation'') = [ustr ''conversation'']
   \<and> required (ustr ''retrieve_memory'') = [ustr ''query'']
   \<and> required (ustr ''search_memory'') = [ustr ''search_query'']
   \<and> required (ustr ''manage_memory'') = [ustr ''action'', ustr ''memory_id'']
   \<and> required (ustr ''get_memory_stats'') = []"
proof (intro conjI impI; (elim conjE)?)
  assume "map_of arguments (ustr ''conversation'') = None"
  then show "fst (tools_memorize_conversation arguments s)
        = Inl (ValueError (ustr ''conversation is required''))"
    and "calls (snd (tools_memorize_conversation arguments s)) = calls s"
    and "effects (snd (tools_memorize_conversation arguments s)) = effects s"
    by (simp_all add: tools_memorize_conversation_unfold py_get_def rejected ustr_append)
next
  assume "map_of arguments (ustr ''query'') = None"
  then show "fst (tools_retrieve_memory arguments s)
        = Inl (ValueError (ustr ''query is required''))"
    and "calls (snd (tools_retrieve_memory arguments s)) = calls s"
    and "effects (snd (tools_retrieve_memory arguments s)) = effects s"
    by (simp_all add: tools_retrieve_memory_unfold py_get_def rejected ustr_append)
next
  assume "map_of arguments (ustr ''search_query'') = None"
  then show "fst (tools_search_memory arguments s)
        = Inl (ValueError (ustr ''search_query is required''))"
    and "calls (snd (tools_search_memory arguments s)) = calls s"
    and "effects (snd (tools_search_memory arguments s)) = effects s"
    by (simp_all add: tools_search_memory_unfold py_get_def rejected ustr_append)
next
  assume "map_of arguments (ustr ''action'') = None"
  then show "fst (tools_manage_memory arguments s) = Inl (ValueError action_message)"
    and "calls (snd (tools_manage_memory arguments s)) = calls s"
    and "effects (snd (tools_manage_memory arguments s)) = effects s"
    by (simp_all add: tools_manage_memory_unfold py_get_def rejected)
qed (simp_all add: required_def ustr_eq_iff)

theorem required_parameters_absent_witness:
  "map_of [(ustr ''limit'', PInt 5)] (ustr ''query'') = None
   \<and> fst (tools_retrieve_memory [(ustr ''limit'', PInt 5)] ready)
       = Inl (ValueError (ustr ''query is required''))
   \<and> calls (snd (tools_retrieve_memory [(ustr ''limit'', PInt 5)] ready)) = calls ready
   \<and> map_of [] (ustr ''action'') = None \<and> map_of [] (ustr ''memory_id'') = None
   \<and> fst (tools_manage_memory [] ready) = Inl (ValueError action_message)
   \<and> calls (snd (tools_manage_memory [] ready)) = calls ready"
proof -
  have a: "map_of [(ustr ''limit'', PInt 5)] (ustr ''query'') = None"
    by (simp add: ustr_eq_iff)
  from required_parameters_absent [of "[(ustr ''limit'', PInt 5)]" ready]
    required_parameters_absent [of "[]" ready] a
  show ?thesis
    by (simp add: ustr_append)
qed

theorem manage_memory_absent_action_counterexample:
  "map_of [] (ustr ''action'') = None \<and> map_of [] (ustr ''memory_id'') = None
   \<and> hd (required (ustr ''manage_memory'')) = ustr ''action''
   \<and> fst (tools_manage_memory [] fresh) = Inl (ValueError action_message)
   \<and> action_message \<noteq> ustr ''action is required''
   \<and> required (ustr ''get_memory_stats'') = []
   \<and> \<not> validation_failure (fst (tools_get_memory_stats [] fresh))"
proof -
  have "fst (tools_manage_memory [] fresh) = Inl (ValueError action_message)"
    by (simp add: tools_manage_memory_unfold py_get_def rejected)
  moreover have "action_message \<noteq> ustr ''action is required''"
    by (simp add: action_message_def ustr_def apostrophe_def)
  moreover have "\<not> validation_failure (fst (tools_get_memory_stats [] fresh))"
    by (simp add: tools_get_memory_stats_unfold py_get_default_def
          Let_def fst_tool_finish get_memory_stats_def called_def log_def fresh_def
          init_wrapper_def not_initialized_def)
  ultimately show ?thesis
    by (simp add: required_def ustr_eq_iff)
qed

subsection \<open>The conditional requirement of \<open>new_content\<close>\<close>

text \<open>
  C2. With a memory id given and no \<open>new_content\<close> in the arguments,
  \<open>manage_memory\<close> with \<open>action = "update"\<close> raises \<open>ValueError\<close> with the text
  \<open>new_content is required for update action\<close> and invokes no adapter method, while
  with \<open>action = "delete"\<close> it invokes the adapter's \<open>delete_memory\<close> and, on an
  initialised session, returns its success mapping. The requirement is checked after the
  checks of \<open>action\<close> and \<open>memory_id\<close>: it is reached only when both have passed.
\<close>

theorem manage_memory_update_needs_content:
  assumes "map_of arguments (ustr ''new_content'') = None"
  shows
    "(py_get arguments (ustr ''action'') = PStr (ustr ''update'')
      \<and> truthy (py_get arguments (ustr ''memory_id'')) \<longrightarrow>
        fst (tools_manage_memory arguments s)
          = Inl (ValueError (ustr ''new_content is required for update action''))
        \<and> calls (snd (tools_manage_memory arguments s)) = calls s
        \<and> effects (snd (tools_manage_memory arguments s)) = effects s)
     \<and> (py_get arguments (ustr ''action'') = PStr (ustr ''delete'')
      \<and> truthy (py_get arguments (ustr ''memory_id'')) \<longrightarrow>
        calls (snd (tools_manage_memory arguments s))
          = calls s @ [CallDelete (py_get arguments (ustr ''memory_id''))
                         (py_get_default arguments (ustr ''user_id'') (PStr (ustr ''default_user'')))]
        \<and> (client s \<noteq> None \<longrightarrow>
             fst (tools_manage_memory arguments s) =
               Inr (PDict [(ustr ''success'', PBool True),
                           (ustr ''message'', PStr (ustr ''Memory deleted successfully'')),
                           (ustr ''memory_id'', py_get arguments (ustr ''memory_id'')),
                           (ustr ''processing_time'', PFloat (round3 (clock s 1 - clock s 0)))])))
     \<and> (py_get arguments (ustr ''action'') = PStr (ustr ''update'')
      \<and> \<not> truthy (py_get arguments (ustr ''memory_id'')) \<longrightarrow>
        fst (tools_manage_memory arguments s) = Inl (ValueError (ustr ''memory_id is required'')))
     \<and> (py_get arguments (ustr ''action'') \<noteq> PStr (ustr ''update'')
      \<and> py_get arguments (ustr ''action'') \<noteq> PStr (ustr ''delete'') \<longrightarrow>
        fst (tools_manage_memory arguments s) = Inl (ValueError action_message))"
proof (intro conjI impI; (elim conjE)?)
  assume upd: "py_get arguments (ustr ''action'') = PStr (ustr ''update'')"
    and mid: "truthy (py_get arguments (ustr ''memory_id''))"
  from assms have "\<not> truthy (py_get arguments (ustr ''new_content''))"
    by (simp add: py_get_def)
  with upd mid
  show "fst (tools_manage_memory arguments s)
          = Inl (ValueError (ustr ''new_content is required for update action''))"
    and "calls (snd (tools_manage_memory arguments s)) = calls s"
    and "effects (snd (tools_manage_memory arguments s)) = effects s"
    by (simp_all add: tools_manage_memory_unfold Let_def rejected log_def)
next
  assume del: "py_get arguments (ustr ''action'') = PStr (ustr ''delete'')"
    and mid: "truthy (py_get arguments (ustr ''memory_id''))"
  then
  show "calls (snd (tools_manage_memory arguments s))
          = calls s @ [CallDelete (py_get arguments (ustr ''memory_id''))
                         (py_get_default arguments (ustr ''user_id'') (PStr (ustr ''default_user'')))]"
    by (simp add: tools_manage_memory_unfold Let_def ustr_eq_iff calls_tool_finish
          calls_delete_memory log_def)
next
  assume del: "py_get arguments (ustr ''action'') = PStr (ustr ''delete'')"
    and mid: "truthy (py_get arguments (ustr ''memory_id''))"
    and c: "client s \<noteq> None"
  from c have "client (log (LogToolCall (ustr ''manage_memory'') arguments True) s) \<noteq> None"
    "clock (log (LogToolCall (ustr ''manage_memory'') arguments True) s) = clock s"
    by (simp_all add: log_def)
  with del mid
  show "fst (tools_manage_memory arguments s) =
               Inr (PDict [(ustr ''success'', PBool True),
                           (ustr ''message'', PStr (ustr ''Memory deleted successfully'')),
                           (ustr ''memory_id'', py_get arguments (ustr ''memory_id'')),
                           (ustr ''processing_time'', PFloat (round3 (clock s 1 - clock s 0)))])"
    by (simp add: tools_manage_memory_unfold Let_def ustr_eq_iff fst_tool_finish delete_memory_ok)
next
  assume "py_get arguments (ustr ''action'') = PStr (ustr ''update'')"
    and "\<not> truthy (py_get arguments (ustr ''memory_id''))"
  then show "fst (tools_manage_memory arguments s) = Inl (ValueError (ustr ''memory_id is required''))"
    by (simp add: tools_manage_memory_unfold Let_def rejected)
next
  assume "py_get arguments (ustr ''action'') \<noteq> PStr (ustr ''update'')"
    and "py_get arguments (ustr ''action'') \<noteq> PStr (ustr ''delete'')"
  then show "fst (tools_manage_memory arguments s) = Inl (ValueError action_message)"
    by (simp add: tools_manage_memory_unfold Let_def rejected)
qed

theorem manage_memory_update_needs_content_witness:
  "map_of update_without_content (ustr ''new_content'') = None
   \<and> truthy (py_get update_without_content (ustr ''memory_id''))
   \<and> py_get update_without_content (ustr ''action'') = PStr (ustr ''update'')
   \<and> fst (tools_manage_memory update_without_content ready)
       = Inl (ValueError (ustr ''new_content is required for update action''))
   \<and> calls (snd (tools_manage_memory update_without_content ready)) = calls ready
   \<and> map_of delete_call (ustr ''new_content'') = None
   \<and> truthy (py_get delete_call (ustr ''memory_id''))
   \<and> py_get delete_call (ustr ''action'') = PStr (ustr ''delete'')
   \<and> client ready \<noteq> None
   \<and> calls (snd (tools_manage_memory delete_call ready))
       = [CallDelete (PStr (ustr ''mem_001'')) (PStr (ustr ''default_user''))]
   \<and> fst (tools_manage_memory delete_call ready) =
        Inr (PDict [(ustr ''success'', PBool True),
                    (ustr ''message'', PStr (ustr ''Memory deleted successfully'')),
                    (ustr ''memory_id'', PStr (ustr ''mem_001'')),
                    (ustr ''processing_time'', PFloat (1 / 4))])"
proof -
  have u: "map_of update_without_content (ustr ''new_content'') = None"
    "truthy (py_get update_without_content (ustr ''memory_id''))"
    "py_get update_without_content (ustr ''action'') = PStr (ustr ''update'')"
    by (simp_all add: update_without_content_def py_get_def ustr_eq_iff ustr_eq_Nil)
  have d: "map_of delete_call (ustr ''new_content'') = None"
    "truthy (py_get delete_call (ustr ''memory_id''))"
    "py_get delete_call (ustr ''action'') = PStr (ustr ''delete'')"
    "py_get delete_call (ustr ''memory_id'') = PStr (ustr ''mem_001'')"
    "py_get_default delete_call (ustr ''user_id'') (PStr (ustr ''default_user''))
       = PStr (ustr ''default_user'')"
    by (simp_all add: delete_call_def py_get_def py_get_default_def ustr_eq_iff ustr_eq_Nil)
  have r: "client ready \<noteq> None" "calls ready = []" "round3 (clock ready 1 - clock ready 0) = 1 / 4"
    by (simp_all add: ready_def fresh_def init_wrapper_def set_logger_def ticking_def round3_def)
  from manage_memory_update_needs_content [OF u(1), of ready]
    manage_memory_update_needs_content [OF d(1), of ready] u d r
  show ?thesis by simp
qed

subsection \<open>The bounds of \<open>limit\<close>\<close>

text \<open>
  C3 (as amended). Let \<open>limit\<close> be the supplied value, 10 when the key is absent, and
  let it not be the boolean \<open>True\<close>. For \<open>retrieve_memory\<close> with a non-empty
  \<open>query\<close>, and for \<open>search_memory\<close> with a non-empty \<open>search_query\<close> and \<open>filters\<close>
  that are empty or a mapping: the call fails validation exactly when \<open>limit\<close> is not an
  integer between 1 and 50; the text is then exactly
  \<open>limit must be an integer between 1 and 50\<close> and no adapter method is invoked; otherwise
  the adapter method is invoked with that limit.
\<close>

theorem limit_validation:
  assumes "limit = py_get_default arguments (ustr ''limit'') (PInt 10)"
    and "limit \<noteq> PBool True"
    and "filters = py_get_default arguments (ustr ''filters'') (PDict [])"
  shows
    "(truthy (py_get arguments (ustr ''query'')) \<longrightarrow>
        (validation_failure (fst (tools_retrieve_memory arguments s)) \<longleftrightarrow> \<not> limit_in_range limit)
      \<and> (\<not> limit_in_range limit \<longrightarrow>
            fst (tools_retrieve_memory arguments s) = Inl (ValueError limit_message)
          \<and> calls (snd (tools_retrieve_memory arguments s)) = calls s)
      \<and> (limit_in_range limit \<longrightarrow>
            calls (snd (tools_retrieve_memory arguments s))
              = calls s @ [CallRetrieve (py_get arguments (ustr ''query''))
                  (py_get_default arguments (ustr ''user_id'') (PStr (ustr ''default_user'')))
                  limit]))
   \<and> (truthy (py_get arguments (ustr ''search_query''))
      \<and> (truthy filters \<longrightarrow> isinstance_dict filters) \<longrightarrow>
        (validation_failure (fst (tools_search_memory arguments s)) \<longleftrightarrow> \<not> limit_in_range limit)
      \<and> (\<not> limit_in_range limit \<longrightarrow>
            fst (tools_search_memory arguments s) = Inl (ValueError limit_message)
          \<and> calls (snd (tools_search_memory arguments s)) = calls s)
      \<and> (limit_in_range limit \<longrightarrow>
            calls (snd (tools_search_memory arguments s))
              = calls s @ [CallSearch (py_get arguments (ustr ''search_query''))
                  (py_get_default arguments (ustr ''user_id'') (PStr (ustr ''default_user'')))
                  filters limit]))"
proof -
  have rej: "limit_rejected limit \<longleftrightarrow> \<not> limit_in_range limit"
    using assms(2) by (rule limit_rejected_iff)
  have retrieve: ?thesis if "limit_in_range limit"
    using that rej assms(1,3)
    by (auto simp: tools_retrieve_memory_unfold tools_search_memory_unfold Let_def
          fst_tool_finish calls_tool_finish adapter_no_validation_failure
          calls_retrieve_memory calls_search_memory log_def)
  have reject: ?thesis if "\<not> limit_in_range limit"
    using that rej assms(1,3)
    by (auto simp: tools_retrieve_memory_unfold tools_search_memory_unfold Let_def rejected)
  from retrieve reject show ?thesis by blast
qed

theorem limit_validation_witness:
  "PInt 51 = py_get_default [(ustr ''query'', PStr (ustr ''test'')), (ustr ''limit'', PInt 51)]
               (ustr ''limit'') (PInt 10)
   \<and> PInt 51 \<noteq> PBool True
   \<and> truthy (py_get [(ustr ''query'', PStr (ustr ''test'')), (ustr ''limit'', PInt 51)]
               (ustr ''query''))
   \<and> \<not> limit_in_range (PInt 51)
   \<and> fst (tools_retrieve_memory
             [(ustr ''query'', PStr (ustr ''test'')), (ustr ''limit'', PInt 51)] ready)
       = Inl (ValueError limit_message)
   \<and> PInt 10 = py_get_default [(ustr ''search_query'', PStr (ustr ''test''))]
               (ustr ''limit'') (PInt 10)
   \<and> truthy (py_get [(ustr ''search_query'', PStr (ustr ''test''))] (ustr ''search_query''))
   \<and> limit_in_range (PInt 10)
   \<and> calls (snd (tools_search_memory [(ustr ''search_query'', PStr (ustr ''test''))] ready))
       = [CallSearch (PStr (ustr ''test'')) (PStr (ustr ''default_user'')) (PDict []) (PInt 10)]"
proof -
  let ?r = "[(ustr ''query'', PStr (ustr ''test'')), (ustr ''limit'', PInt 51)]"
  let ?q = "[(ustr ''search_query'', PStr (ustr ''test''))]"
  have r: "PInt 51 = py_get_default ?r (ustr ''limit'') (PInt 10)"
    "py_get ?r (ustr ''query'') = PStr (ustr ''test'')"
    by (simp_all add: py_get_default_def py_get_def ustr_eq_iff)
  have q: "PInt 10 = py_get_default ?q (ustr ''limit'') (PInt 10)"
    "PDict [] = py_get_default ?q (ustr ''filters'') (PDict [])"
    "py_get ?q (ustr ''search_query'') = PStr (ustr ''test'')"
    "py_get_default ?q (ustr ''user_id'') (PStr (ustr ''default_user'')) = PStr (ustr ''default_user'')"
    by (simp_all add: py_get_default_def py_get_def ustr_eq_iff)
  have c: "calls ready = []"
    by (simp add: ready_def fresh_def init_wrapper_def set_logger_def)
  from limit_validation [OF r(1) _ refl, of ready] limit_validation [OF q(1) _ q(2), of ready]
    r q c
  show ?thesis by (simp add: ustr_eq_Nil)
qed

theorem limit_without_query_counterexample:
  "validation_failure (fst (tools_retrieve_memory [] ready))
   \<and> limit_in_range (py_get_default [] (ustr ''limit'') (PInt 10))
   \<and> \<not> limit_in_range (py_get_default [(ustr ''limit'', PInt 0)] (ustr ''limit'') (PInt 10))
   \<and> fst (tools_retrieve_memory [(ustr ''limit'', PInt 0)] ready) \<noteq> Inl (ValueError limit_message)"
  by (simp add: tools_retrieve_memory_unfold py_get_def py_get_default_def rejected ustr_eq_iff
        limit_message_def)

text \<open>
  The boolean \<open>True\<close> is an instance of \<open>int\<close> and compares as 1: the check lets
  it through, and the adapter receives it as the limit.
\<close>

lemma limit_true_is_accepted:
  assumes "truthy (py_get a (ustr ''query''))"
    and "map_of a (ustr ''limit'') = Some (PBool True)"
  shows "calls (snd (tools_retrieve_memory a s))
           = calls s @ [CallRetrieve (py_get a (ustr ''query''))
               (py_get_default a (ustr ''user_id'') (PStr (ustr ''default_user'')))
               (PBool True)]"
  using assms
  by (simp add: tools_retrieve_memory_unfold Let_def py_get_default_def limit_rejected_def
        calls_tool_finish calls_retrieve_memory log_def)

subsection \<open>The length of a conversation\<close>

text \<open>
  C4. \<open>memorize_conversation\<close> rejects a conversation of more than 100,000 characters
  with the error \<open>Conversation too long (max 100,000 characters)\<close> before the adapter or
  the backend is reached; a non-empty conversation of at most 100,000 characters, so one of
  exactly 100,000, passes the check: the adapter's \<open>memorize_conversation\<close> is invoked and,
  on an initialised session, the backend's.
\<close>

theorem conversation_length_limit:
  assumes "py_get arguments (ustr ''conversation'') = PStr c"
    and "user_id = py_get_default arguments (ustr ''user_id'') (PStr (ustr ''default_user''))"
    and "user_name = py_get_default arguments (ustr ''user_name'') (PStr (ustr ''User''))"
    and "agent_id = py_get_default arguments (ustr ''agent_id'') (PStr (ustr ''default_agent''))"
    and "agent_name = py_get_default arguments (ustr ''agent_name'') (PStr (ustr ''Assistant''))"
  shows
    "(100000 < length c \<longrightarrow>
        fst (tools_memorize_conversation arguments s)
          = Inl (ValueError (ustr ''Conversation too long (max 100,000 characters)''))
        \<and> calls (snd (tools_memorize_conversation arguments s)) = calls s
        \<and> effects (snd (tools_memorize_conversation arguments s)) = effects s)
     \<and> (c \<noteq> [] \<and> length c \<le> 100000 \<longrightarrow>
        \<not> validation_failure (fst (tools_memorize_conversation arguments s))
        \<and> calls (snd (tools_memorize_conversation arguments s))
            = calls s @ [CallMemorize (PStr c) user_id user_name agent_id agent_name]
        \<and> (client s \<noteq> None \<longrightarrow>
             effects (snd (tools_memorize_conversation arguments s))
               = effects s @ [ExtMemorize (PStr c) user_id user_name agent_id agent_name]))"
proof (intro conjI impI; (elim conjE)?)
  assume "100000 < length c"
  with assms(1)
  show "fst (tools_memorize_conversation arguments s)
          = Inl (ValueError (ustr ''Conversation too long (max 100,000 characters)''))"
    and "calls (snd (tools_memorize_conversation arguments s)) = calls s"
    and "effects (snd (tools_memorize_conversation arguments s)) = effects s"
    by (auto simp: tools_memorize_conversation_unfold Let_def rejected)
next
  assume c: "c \<noteq> []" "length c \<le> 100000"
  with assms
  show "\<not> validation_failure (fst (tools_memorize_conversation arguments s))"
    and "calls (snd (tools_memorize_conversation arguments s))
            = calls s @ [CallMemorize (PStr c) user_id user_name agent_id agent_name]"
    by (simp_all add: tools_memorize_conversation_unfold Let_def fst_tool_finish calls_tool_finish
          adapter_no_validation_failure calls_memorize_conversation log_def)
next
  assume c: "c \<noteq> []" "length c \<le> 100000" and cl: "client s \<noteq> None"
  from cl have "client (log (LogToolCall (ustr ''memorize_conversation'') arguments True) s) \<noteq> None"
    by (simp add: log_def)
  with c assms
  show "effects (snd (tools_memorize_conversation arguments s))
               = effects s @ [ExtMemorize (PStr c) user_id user_name agent_id agent_name]"
    by (simp add: tools_memorize_conversation_unfold Let_def effects_tool_finish
          effects_memorize_conversation) (simp add: log_def)
qed

theorem conversation_length_limit_witness:
  "py_get [(ustr ''conversation'', PStr long_conversation)] (ustr ''conversation'')
     = PStr long_conversation
   \<and> 100000 < length long_conversation
   \<and> fst (tools_memorize_conversation [(ustr ''conversation'', PStr long_conversation)] ready)
       = Inl (ValueError (ustr ''Conversation too long (max 100,000 characters)''))
   \<and> calls (snd (tools_memorize_conversation
                   [(ustr ''conversation'', PStr long_conversation)] ready)) = []
   \<and> py_get [(ustr ''conversation'', PStr longest_conversation)] (ustr ''conversation'')
     = PStr longest_conversation
   \<and> longest_conversation \<noteq> [] \<and> length longest_conversation = 100000
   \<and> client ready \<noteq> None
   \<and> calls (snd (tools_memorize_conversation
                   [(ustr ''conversation'', PStr longest_conversation)] ready))
       = [CallMemorize (PStr longest_conversation) (PStr (ustr ''default_user''))
            (PStr (ustr ''User'')) (PStr (ustr ''default_agent'')) (PStr (ustr ''Assistant''))]
   \<and> effects (snd (tools_memorize_conversation
                   [(ustr ''conversation'', PStr longest_conversation)] ready))
       = [ExtMemorize (PStr longest_conversation) (PStr (ustr ''default_user''))
            (PStr (ustr ''User'')) (PStr (ustr ''default_agent'')) (PStr (ustr ''Assistant''))]"
proof -
  let ?a = "[(ustr ''conversation'', PStr long_conversation)]"
  let ?b = "[(ustr ''conversation'', PStr longest_conversation)]"
  have a: "py_get ?a (ustr ''conversation'') = PStr long_conversation"
    "100000 < length long_conversation"
    by (simp_all add: py_get_def long_conversation_def)
  have b: "py_get ?b (ustr ''conversation'') = PStr longest_conversation"
    "longest_conversation \<noteq> []" "length longest_conversation = 100000"
    "PStr (ustr ''default_user'') = py_get_default ?b (ustr ''user_id'') (PStr (ustr ''default_user''))"
    "PStr (ustr ''User'') = py_get_default ?b (ustr ''user_name'') (PStr (ustr ''User''))"
    "PStr (ustr ''default_agent'') = py_get_default ?b (ustr ''agent_id'') (PStr (ustr ''default_agent''))"
    "PStr (ustr ''Assistant'') = py_get_default ?b (ustr ''agent_name'') (PStr (ustr ''Assistant''))"
    by (simp_all add: py_get_def py_get_default_def longest_conversation_def ustr_eq_iff)
  have r: "client ready \<noteq> None" "calls ready = []" "effects ready = []"
    by (simp_all add: ready_def fresh_def init_wrapper_def set_logger_def)
  from conversation_length_limit [OF a(1) refl refl refl refl, of ready]
    conversation_length_limit [OF b(1) b(4,5,6,7), of ready] a b r
  show ?thesis by simp
qed

subsection \<open>Connecting with retries\<close>




subsection \<open>An unknown operation\<close>

text \<open>
  C6. A call whose name is none of the five registered operations is answered with an
  envelope flagged as an error, whose text names the unknown operation. No handler runs
  and no adapter method is invoked: the state changes by the dispatcher's own two log
  lines only. Whenever the body of \<open>call_tool\<close> raises, for any name, the exception is
  turned into an envelope flagged as an error; \<open>call_tool\<close> itself raises nothing.
\<close>

theorem unknown_tool:
  assumes "name \<notin> set tool_names"
  shows "call_tool name arguments s
           = (\<lparr>content = [Text (ustr ''Error: Unknown tool: '' @ name)], isError = True\<rparr>,
              log (LogMsg Error) (log (LogMsg Info) s))
       \<and> calls (snd (call_tool name arguments s)) = calls s
       \<and> effects (snd (call_tool name arguments s)) = effects s
       \<and> logs (snd (call_tool name arguments s)) = logs s @ [LogMsg Info, LogMsg Error]
       \<and> (\<forall>other args t e. fst (dispatch other args t) = Inl e \<longrightarrow>
             isError (fst (call_tool other args t)))"
proof -
  have "call_tool name arguments s
           = (\<lparr>content = [Text (ustr ''Error: Unknown tool: '' @ name)], isError = True\<rparr>,
              log (LogMsg Error) (log (LogMsg Info) s))"
    by (simp add: call_tool_def dispatch_unknown [OF assms] ustr_def)
  moreover have "isError (fst (call_tool other args t))"
    if "fst (dispatch other args t) = Inl e" for other args t e
    using call_tool_error [OF that] by simp
  ultimately show ?thesis
    by (simp add: log_def)
qed

theorem unknown_tool_witness:
  "ustr ''forget_everything'' \<notin> set tool_names
   \<and> call_tool (ustr ''forget_everything'') [] ready
       = (\<lparr>content = [Text (ustr ''Error: Unknown tool: forget_everything'')], isError = True\<rparr>,
          log (LogMsg Error) (log (LogMsg Info) ready))
   \<and> calls (snd (call_tool (ustr ''forget_everything'') [] ready)) = []
   \<and> fst (dispatch (ustr ''manage_memory'') bogus_action_call ready) = Inl no_log_tool_call
   \<and> isError (fst (call_tool (ustr ''manage_memory'') bogus_action_call ready))"
proof -
  have n: "ustr ''forget_everything'' \<notin> set tool_names"
    by (simp add: tool_names_def ustr_eq_iff)
  have d: "fst (dispatch (ustr ''manage_memory'') bogus_action_call ready) = Inl no_log_tool_call"
    by (simp add: dispatch_def ustr_eq_iff server_logger_def handlers_BoundLogger)
  have c: "calls ready = []"
    by (simp add: ready_def fresh_def init_wrapper_def set_logger_def)
  from unknown_tool [OF n, of "[]" ready] n d c show ?thesis
    by (simp add: ustr_append log_def)
qed

subsection \<open>An action outside the enumeration\<close>

text \<open>
  C7. When \<open>action\<close> is present in the arguments and is neither \<open>"update"\<close> nor
  \<open>"delete"\<close>, \<open>manage_memory\<close> raises \<open>ValueError\<close> with exactly the text
  \<open>action must be 'update' or 'delete'\<close>, whatever the other fields hold, and no adapter
  method is invoked and nothing is done to the backend.
\<close>

theorem manage_memory_invalid_action:
  assumes "map_of arguments (ustr ''action'') = Some a"
    and "a \<noteq> PStr (ustr ''update'')" and "a \<noteq> PStr (ustr ''delete'')"
  shows "fst (tools_manage_memory arguments s) = Inl (ValueError action_message)
       \<and> calls (snd (tools_manage_memory arguments s)) = calls s
       \<and> effects (snd (tools_manage_memory arguments s)) = effects s"
  using assms
  by (simp add: tools_manage_memory_unfold py_get_def Let_def fst_tool_except
        calls_tool_except effects_tool_except)

theorem manage_memory_invalid_action_witness:
  "map_of bogus_action_call (ustr ''action'') = Some (PStr (ustr ''bogus''))
   \<and> PStr (ustr ''bogus'') \<noteq> PStr (ustr ''update'')
   \<and> PStr (ustr ''bogus'') \<noteq> PStr (ustr ''delete'')
   \<and> fst (tools_manage_memory bogus_action_call ready) = Inl (ValueError action_message)
   \<and> calls (snd (tools_manage_memory bogus_action_call ready)) = calls ready
   \<and> effects (snd (tools_manage_memory bogus_action_call ready)) = effects ready"
  using manage_memory_invalid_action [of bogus_action_call "PStr (ustr ''bogus'')" ready]
  by (simp add: bogus_action_call_def ustr_eq_iff)

subsection \<open>The result of \<open>memorize_conversation\<close>\<close>

lemma timeline_memorize_conversation:
  assumes "client s \<noteq> None" and "memorize_outcomes s 0 = Inr result_id"
  shows "timeline (snd (memorize_conversation (PStr c) u un a an s))
           = timeline s @ [Read (clock s 0), Act (ExtMemorize (PStr c) u un a an),
                           Read (clock s 1)]"
  using assms
  by (simp add: memorize_conversation_def called_def Let_def time_time_def
        ext_memorize_conversation_def wlog_def log_def)

lemma timeline_tool_finish:
  "timeline (snd (tool_finish MemuLogger t a r)) = timeline (snd r)"
  by (simp add: tool_finish_def tool_except_MemuLogger log_def split: prod.splits sum.splits)

text \<open>
  C8. When the session is initialised and the backend call returns, the result mapping of
  \<open>memorize_conversation\<close> has \<open>success = True\<close>, \<open>tokens_processed\<close> equal to the
  number of whitespace-delimited words of the conversation (the length of
  \<open>conversation.split()\<close>) and \<open>processing_time\<close> equal to the rounded difference of
  two clock readings, the first taken just before the backend call and the second just
  after it. This holds for the adapter's method and for the tool handler on a valid call.
\<close>

theorem memorize_conversation_result:
  assumes "client s \<noteq> None" and "memorize_outcomes s 0 = Inr result_id"
    and "payload = PDict [(ustr ''success'', PBool True),
                 (ustr ''message'', PStr (ustr ''Conversation memorized successfully'')),
                 (ustr ''memory_id'', result_id),
                 (ustr ''tokens_processed'', PInt (int (word_count c))),
                 (ustr ''processing_time'', PFloat (round3 (clock s 1 - clock s 0)))]"
  shows "fst (memorize_conversation (PStr c) user_id user_name agent_id agent_name s) = Inr payload
     \<and> timeline (snd (memorize_conversation (PStr c) user_id user_name agent_id agent_name s))
         = timeline s @ [Read (clock s 0),
                         Act (ExtMemorize (PStr c) user_id user_name agent_id agent_name),
                         Read (clock s 1)]
     \<and> (py_get arguments (ustr ''conversation'') = PStr c \<and> c \<noteq> [] \<and> length c \<le> 100000
        \<longrightarrow> fst (tools_memorize_conversation arguments s) = Inr payload
          \<and> timeline (snd (tools_memorize_conversation arguments s))
              = timeline s @ [Read (clock s 0),
                   Act (ExtMemorize (PStr c)
                     (py_get_default arguments (ustr ''user_id'') (PStr (ustr ''default_user'')))
                     (py_get_default arguments (ustr ''user_name'') (PStr (ustr ''User'')))
                     (py_get_default arguments (ustr ''agent_id'') (PStr (ustr ''default_agent'')))
                     (py_get_default arguments (ustr ''agent_name'') (PStr (ustr ''Assistant'')))),
                   Read (clock s 1)])
     \<and> word_count c = length (split c)"
proof (intro conjI impI; (elim conjE)?)
  show "fst (memorize_conversation (PStr c) user_id user_name agent_id agent_name s) = Inr payload"
    using assms by (simp add: memorize_conversation_ok)
next
  show "timeline (snd (memorize_conversation (PStr c) user_id user_name agent_id agent_name s))
         = timeline s @ [Read (clock s 0),
                         Act (ExtMemorize (PStr c) user_id user_name agent_id agent_name),
                         Read (clock s 1)]"
    using assms(1,2) by (rule timeline_memorize_conversation)
next
  assume c: "py_get arguments (ustr ''conversation'') = PStr c" "c \<noteq> []" "length c \<le> 100000"
  from assms c show "fst (tools_memorize_conversation arguments s) = Inr payload"
    by (simp add: tools_memorize_conversation_ok)
  let ?s = "log (LogToolCall (ustr ''memorize_conversation'') arguments True) s"
  have "client ?s \<noteq> None" "memorize_outcomes ?s 0 = Inr result_id" "clock ?s = clock s"
    "timeline ?s = timeline s"
    using assms(1,2) by (simp_all add: log_def)
  from timeline_memorize_conversation [OF this(1,2)] this(3,4) c
  show "timeline (snd (tools_memorize_conversation arguments s))
              = timeline s @ [Read (clock s 0),
                   Act (ExtMemorize (PStr c)
                     (py_get_default arguments (ustr ''user_id'') (PStr (ustr ''default_user'')))
                     (py_get_default arguments (ustr ''user_name'') (PStr (ustr ''User'')))
                     (py_get_default arguments (ustr ''agent_id'') (PStr (ustr ''default_agent'')))
                     (py_get_default arguments (ustr ''agent_name'') (PStr (ustr ''Assistant'')))),
                   Read (clock s 1)]"
    by (simp add: tools_memorize_conversation_unfold Let_def timeline_tool_finish)
next
  show "word_count c = length (split c)"
    by (simp add: length_split)
qed

theorem memorize_conversation_result_witness:
  "client ready \<noteq> None
   \<and> memorize_outcomes ready 0 = Inr (PStr (ustr ''mem_001''))
   \<and> py_get [(ustr ''conversation'', PStr greeting)] (ustr ''conversation'') = PStr greeting
   \<and> greeting \<noteq> [] \<and> length greeting \<le> 100000
   \<and> split greeting = [ustr ''User:'', ustr ''Hello!'', ustr ''Assistant:'', ustr ''Hi'',
                         ustr ''there!'']
   \<and> fst (tools_memorize_conversation [(ustr ''conversation'', PStr greeting)] ready)
       = Inr (PDict [(ustr ''success'', PBool True),
                 (ustr ''message'', PStr (ustr ''Conversation memorized successfully'')),
                 (ustr ''memory_id'', PStr (ustr ''mem_001'')),
                 (ustr ''tokens_processed'', PInt 5),
                 (ustr ''processing_time'', PFloat (1 / 4))])
   \<and> timeline (snd (tools_memorize_conversation [(ustr ''conversation'', PStr greeting)] ready))
       = [Read 0,
          Act (ExtMemorize (PStr greeting) (PStr (ustr ''default_user'')) (PStr (ustr ''User''))
                 (PStr (ustr ''default_agent'')) (PStr (ustr ''Assistant''))),
          Read (1 / 4)]"
proof -
  let ?a = "[(ustr ''conversation'', PStr greeting)]"
  have r: "client ready \<noteq> None" "memorize_outcomes ready 0 = Inr (PStr (ustr ''mem_001''))"
    "round3 (clock ready 1 - clock ready 0) = 1 / 4" "timeline ready = []"
    "clock ready 0 = 0" "clock ready 1 = 1 / 4"
    by (simp_all add: ready_def fresh_def init_wrapper_def set_logger_def ticking_def round3_def
          memorize_ok_def)
  have g: "py_get ?a (ustr ''conversation'') = PStr greeting"
    "greeting \<noteq> []" "length greeting \<le> 100000"
    by (simp_all add: py_get_def greeting_def ustr_def)
  have d: "py_get_default ?a (ustr ''user_id'') (PStr (ustr ''default_user''))
             = PStr (ustr ''default_user'')"
    "py_get_default ?a (ustr ''user_name'') (PStr (ustr ''User'')) = PStr (ustr ''User'')"
    "py_get_default ?a (ustr ''agent_id'') (PStr (ustr ''default_agent''))
             = PStr (ustr ''default_agent'')"
    "py_get_default ?a (ustr ''agent_name'') (PStr (ustr ''Assistant''))
             = PStr (ustr ''Assistant'')"
    by (simp_all add: py_get_default_def ustr_eq_iff)
  have w: "split greeting = [ustr ''User:'', ustr ''Hello!'', ustr ''Assistant:'', ustr ''Hi'',
                         ustr ''there!'']"
    by (simp add: split_def greeting_def ustr_def py_isspace_def)
  from memorize_conversation_result [OF r(1,2) refl, of greeting _ _ _ _ ?a] r g w d
  show ?thesis by simp
qed

subsection \<open>Empty strings\<close>

text \<open>
  C9. A required string parameter that is present but empty is rejected with the same
  error as when it is absent, and no adapter method is invoked: \<open>conversation\<close>,
  \<open>query\<close>, \<open>search_query\<close>, \<open>memory_id\<close> (the action being valid) and
  \<open>new_content\<close> under \<open>action = "update"\<close> (the memory id being given).
\<close>

theorem empty_string_is_missing:
  "(empty_or_absent arguments (ustr ''conversation'') \<longrightarrow>
      fst (tools_memorize_conversation arguments s)
        = Inl (ValueError (ustr ''conversation is required''))
      \<and> calls (snd (tools_memorize_conversation arguments s)) = calls s)
   \<and> (empty_or_absent arguments (ustr ''query'') \<longrightarrow>
      fst (tools_retrieve_memory arguments s) = Inl (ValueError (ustr ''query is required''))
      \<and> calls (snd (tools_retrieve_memory arguments s)) = calls s)
   \<and> (empty_or_absent arguments (ustr ''search_query'') \<longrightarrow>
      fst (tools_search_memory arguments s)
        = Inl (ValueError (ustr ''search_query is required''))
      \<and> calls (snd (tools_search_memory arguments s)) = calls s)
   \<and> (py_get arguments (ustr ''action'') \<in> {PStr (ustr ''update''), PStr (ustr ''delete'')}
       \<and> empty_or_absent arguments (ustr ''memory_id'') \<longrightarrow>
      fst (tools_manage_memory arguments s) = Inl (ValueError (ustr ''memory_id is required''))
      \<and> calls (snd (tools_manage_memory arguments s)) = calls s)
   \<and> (py_get arguments (ustr ''action'') = PStr (ustr ''update'')
       \<and> truthy (py_get arguments (ustr ''memory_id''))
       \<and> empty_or_absent arguments (ustr ''new_content'') \<longrightarrow>
      fst (tools_manage_memory arguments s)
        = Inl (ValueError (ustr ''new_content is required for update action''))
      \<and> calls (snd (tools_manage_memory arguments s)) = calls s)"
proof (intro conjI impI)
  assume "empty_or_absent arguments (ustr ''conversation'')"
  then have "\<not> truthy (py_get arguments (ustr ''conversation''))"
    by (rule empty_or_absent_get)
  then show "fst (tools_memorize_conversation arguments s)
        = Inl (ValueError (ustr ''conversation is required''))"
    and "calls (snd (tools_memorize_conversation arguments s)) = calls s"
    by (simp_all add: tools_memorize_conversation_unfold rejected)
next
  assume "empty_or_absent arguments (ustr ''query'')"
  then have "\<not> truthy (py_get arguments (ustr ''query''))"
    by (rule empty_or_absent_get)
  then show "fst (tools_retrieve_memory arguments s) = Inl (ValueError (ustr ''query is required''))"
    and "calls (snd (tools_retrieve_memory arguments s)) = calls s"
    by (simp_all add: tools_retrieve_memory_unfold rejected)
next
  assume "empty_or_absent arguments (ustr ''search_query'')"
  then have "\<not> truthy (py_get arguments (ustr ''search_query''))"
    by (rule empty_or_absent_get)
  then show "fst (tools_search_memory arguments s)
        = Inl (ValueError (ustr ''search_query is required''))"
    and "calls (snd (tools_search_memory arguments s)) = calls s"
    by (simp_all add: tools_search_memory_unfold rejected)
next
  assume a: "py_get arguments (ustr ''action'') \<in> {PStr (ustr ''update''), PStr (ustr ''delete'')}
       \<and> empty_or_absent arguments (ustr ''memory_id'')"
  then have "\<not> truthy (py_get arguments (ustr ''memory_id''))"
    by (simp add: empty_or_absent_get)
  with a show "fst (tools_manage_memory arguments s) = Inl (ValueError (ustr ''memory_id is required''))"
    and "calls (snd (tools_manage_memory arguments s)) = calls s"
    by (auto simp: tools_manage_memory_unfold rejected)
next
  assume a: "py_get arguments (ustr ''action'') = PStr (ustr ''update'')
       \<and> truthy (py_get arguments (ustr ''memory_id''))
       \<and> empty_or_absent arguments (ustr ''new_content'')"
  then have "\<not> truthy (py_get arguments (ustr ''new_content''))"
    by (simp add: empty_or_absent_get)
  with a show "fst (tools_manage_memory arguments s)
        = Inl (ValueError (ustr ''new_content is required for update action''))"
    and "calls (snd (tools_manage_memory arguments s)) = calls s"
    by (simp_all add: tools_manage_memory_unfold rejected log_def Let_def)
qed

theorem empty_string_is_missing_witness:
  "empty_or_absent [(ustr ''conversation'', PStr [])] (ustr ''conversation'')
   \<and> fst (tools_memorize_conversation [(ustr ''conversation'', PStr [])] ready)
        = Inl (ValueError (ustr ''conversation is required''))
   \<and> empty_or_absent [(ustr ''query'', PStr [])] (ustr ''query'')
   \<and> fst (tools_retrieve_memory [(ustr ''query'', PStr [])] ready)
        = Inl (ValueError (ustr ''query is required''))
   \<and> empty_or_absent [(ustr ''search_query'', PStr [])] (ustr ''search_query'')
   \<and> fst (tools_search_memory [(ustr ''search_query'', PStr [])] ready)
        = Inl (ValueError (ustr ''search_query is required''))
   \<and> empty_or_absent [(ustr ''action'', PStr (ustr ''delete'')), (ustr ''memory_id'', PStr [])]
         (ustr ''memory_id'')
   \<and> fst (tools_manage_memory
              [(ustr ''action'', PStr (ustr ''delete'')), (ustr ''memory_id'', PStr [])] ready)
        = Inl (ValueError (ustr ''memory_id is required''))
   \<and> empty_or_absent empty_content_update (ustr ''new_content'')
   \<and> truthy (py_get empty_content_update (ustr ''memory_id''))
   \<and> fst (tools_manage_memory empty_content_update ready)
        = Inl (ValueError (ustr ''new_content is required for update action''))
   \<and> calls (snd (tools_manage_memory empty_content_update ready)) = calls ready"
proof -
  have h: "empty_or_absent [(ustr ''conversation'', PStr [])] (ustr ''conversation'')"
    "empty_or_absent [(ustr ''query'', PStr [])] (ustr ''query'')"
    "empty_or_absent [(ustr ''search_query'', PStr [])] (ustr ''search_query'')"
    "empty_or_absent [(ustr ''action'', PStr (ustr ''delete'')), (ustr ''memory_id'', PStr [])]
         (ustr ''memory_id'')"
    "py_get [(ustr ''action'', PStr (ustr ''delete'')), (ustr ''memory_id'', PStr [])]
         (ustr ''action'') = PStr (ustr ''delete'')"
    "empty_or_absent empty_content_update (ustr ''new_content'')"
    "truthy (py_get empty_content_update (ustr ''memory_id''))"
    "py_get empty_content_update (ustr ''action'') = PStr (ustr ''update'')"
    by (simp_all add: empty_or_absent_def empty_content_update_def py_get_def ustr_eq_iff
          ustr_eq_Nil)
  from h empty_string_is_missing [of "[(ustr ''conversation'', PStr [])]" ready]
    empty_string_is_missing [of "[(ustr ''query'', PStr [])]" ready]
    empty_string_is_missing [of "[(ustr ''search_query'', PStr [])]" ready]
    empty_string_is_missing
      [of "[(ustr ''action'', PStr (ustr ''delete'')), (ustr ''memory_id'', PStr [])]" ready]
    empty_string_is_missing [of empty_content_update ready]
  show ?thesis by simp
qed

subsection \<open>The guard on the session handle\<close>

text \<open>
  C10. While the session handle is absent, each of the six adapter methods raises
  \<open>RuntimeError\<close> with the text \<open>Client not initialized\<close> and does nothing else: no
  backend call, no clock reading, no log line. The handle is absent in a new wrapper, it
  stays absent when \<open>initialize\<close> fails, and it is absent after \<open>close\<close>, which may be
  called again without effect.
\<close>

theorem client_not_initialized:
  assumes "client s = None"
  shows
    "memorize_conversation c u un a an s
       = (Inl (RuntimeError (ustr ''Client not initialized'')),
          s\<lparr>calls := calls s @ [CallMemorize c u un a an]\<rparr>)
     \<and> retrieve_memory q u l s
       = (Inl (RuntimeError (ustr ''Client not initialized'')),
          s\<lparr>calls := calls s @ [CallRetrieve q u l]\<rparr>)
     \<and> search_memory q u f l s
       = (Inl (RuntimeError (ustr ''Client not initialized'')),
          s\<lparr>calls := calls s @ [CallSearch q u f l]\<rparr>)
     \<and> update_memory m n u s
       = (Inl (RuntimeError (ustr ''Client not initialized'')),
          s\<lparr>calls := calls s @ [CallUpdate m n u]\<rparr>)
     \<and> delete_memory m u s
       = (Inl (RuntimeError (ustr ''Client not initialized'')),
          s\<lparr>calls := calls s @ [CallDelete m u]\<rparr>)
     \<and> get_memory_stats u d s
       = (Inl (RuntimeError (ustr ''Client not initialized'')),
          s\<lparr>calls := calls s @ [CallStats u d]\<rparr>)
     \<and> client (close t) = None
     \<and> close (close t) = close t
     \<and> client (init_wrapper mr bd conn memo clk) = None
     \<and> (\<forall>e. fst (initialize s) = Inl e \<longrightarrow> client (snd (initialize s)) = None)"
proof -
  have "client (snd (initialize s)) = None" if "fst (initialize s) = Inl e" for e
    using initialize_loop_failed_client [of 0 s e] that assms
    by (simp add: initialize_def)
  moreover have "client (close t) = None" "close (close t) = close t"
    by (simp_all add: close_def wlog_def log_def)
  ultimately show ?thesis
    using assms
    by (simp add: memorize_conversation_def retrieve_memory_def search_memory_def
          update_memory_def delete_memory_def get_memory_stats_def called_def
          not_initialized_def init_wrapper_def)
qed

theorem client_not_initialized_witness:
  "client fresh = None
   \<and> fst (retrieve_memory (PStr (ustr ''test'')) (PStr (ustr ''default_user'')) (PInt 5) fresh)
       = Inl (RuntimeError (ustr ''Client not initialized''))
   \<and> effects (snd (retrieve_memory (PStr (ustr ''test'')) (PStr (ustr ''default_user''))
                     (PInt 5) fresh)) = []
   \<and> client ready = Some MemuClient
   \<and> client (close ready) = None
   \<and> fst (get_memory_stats (PStr (ustr ''default_user'')) (PBool False) (close ready))
       = Inl (RuntimeError (ustr ''Client not initialized''))
   \<and> close (close ready) = close ready
   \<and> client unreachable = None
   \<and> fst (initialize unreachable)
       = Inl (ConnectionError
           (ustr ''Failed to initialize memU client after 2 attempts: connection refused''))
   \<and> client (snd (initialize unreachable)) = None"
proof -
  let ?q = "PStr (ustr ''test'')" and ?u = "PStr (ustr ''default_user'')"
  have f: "client fresh = None" "effects fresh = []" "client unreachable = None"
    by (simp_all add: fresh_def unreachable_def init_wrapper_def)
  have r: "client ready = Some MemuClient"
    by (simp add: ready_def fresh_def init_wrapper_def set_logger_def)
  have c: "client (close ready) = None" "close (close ready) = close ready"
    using client_not_initialized [OF f(1), where t = ready] by simp_all
  from client_not_initialized [OF f(1), of _ ?u _ _ _ ?q "PInt 5"]
  have 1: "retrieve_memory ?q ?u (PInt 5) fresh
       = (Inl (RuntimeError (ustr ''Client not initialized'')),
          fresh\<lparr>calls := calls fresh @ [CallRetrieve ?q ?u (PInt 5)]\<rparr>)"
    by blast
  from client_not_initialized [OF c(1), of _ ?u _ _ _ _ _ _ _ _ "PBool False"]
  have 2: "get_memory_stats ?u (PBool False) (close ready)
       = (Inl (RuntimeError (ustr ''Client not initialized'')),
          (close ready)\<lparr>calls := calls (close ready) @ [CallStats ?u (PBool False)]\<rparr>)"
    by blast
  from client_not_initialized [OF f(3)] initialize_unreachable
  have 3: "client (snd (initialize unreachable)) = None"
    by blast
  from 1 2 3 f r c initialize_unreachable show ?thesis
    by simp
qed

end
